theory Spec2Isabelle
  imports Main "HOL-Library.Word" "HOL-Library.AList"
begin

unbundle bit_operations_syntax

section \<open>Python values\<close>

text \<open>
  The client of \<^verbatim>\<open>rpc2.py\<close> builds its requests as Python dictionaries and reads the
  device's answers through \<^verbatim>\<open>json.loads\<close>. Both are values of the following type:
  \<open>JNull\<close> is Python's \<^verbatim>\<open>None\<close>, a dictionary is an association list in insertion
  order whose lookup is \<open>map_of\<close>. Strings are byte strings: a Python \<^verbatim>\<open>str\<close> is
  represented by its UTF-8 encoding, so that \<^verbatim>\<open>s.encode('utf-8')\<close> yields the bytes of
  the string itself. Numbers with a fraction (Python floats) are not represented.
\<close>

datatype json =
    JNull
  | JBool bool
  | JInt int
  | JStr string
  | JArr "json list"
  | JObj "(string \<times> json) list"

text \<open>
  The exceptions. All but \<open>CancelledError\<close> derive from \<^verbatim>\<open>Exception\<close>;
  \<^verbatim>\<open>asyncio.CancelledError\<close> derives from \<^verbatim>\<open>BaseException\<close> only, so that
  \<^verbatim>\<open>except Exception\<close> does not catch it. \<open>TransportError\<close> stands for the exceptions of
  aiohttp, named by the string.
\<close>

datatype py_error =
    TransportError string
  | ValueError string
  | ConnectionError string
  | KeyError string
  | TypeError
  | AttributeError
  | RecursionError
  | CancelledError

fun is_Exception :: "py_error \<Rightarrow> bool" where
  "is_Exception CancelledError = False"
| "is_Exception _ = True"

text \<open>Truth value testing, as in \<^verbatim>\<open>if object_id:\<close>.\<close>

fun truthy :: "json \<Rightarrow> bool" where
  "truthy JNull = False"
| "truthy (JBool b) = b"
| "truthy (JInt i) = (i \<noteq> 0)"
| "truthy (JStr s) = (s \<noteq> [])"
| "truthy (JArr xs) = (xs \<noteq> [])"
| "truthy (JObj kvs) = (kvs \<noteq> [])"

text \<open>\<^verbatim>\<open>v == True\<close>: Python's \<^verbatim>\<open>bool\<close> is a subclass of \<^verbatim>\<open>int\<close>, and \<^verbatim>\<open>1 == True\<close>.\<close>

fun eq_True :: "json \<Rightarrow> bool" where
  "eq_True (JBool b) = b"
| "eq_True (JInt i) = (i = 1)"
| "eq_True _ = False"

text \<open>\<^verbatim>\<open>v is True\<close> and \<^verbatim>\<open>v is False\<close>: identity with the two boolean objects.\<close>

definition is_True :: "json \<Rightarrow> bool" where
  "is_True v = (v = JBool True)"

definition is_False :: "json \<Rightarrow> bool" where
  "is_False v = (v = JBool False)"

text \<open>\<^verbatim>\<open>v.get(k)\<close>: only a dictionary has the method; a missing key gives \<^verbatim>\<open>None\<close>.\<close>

fun py_get :: "json \<Rightarrow> string \<Rightarrow> py_error + json" where
  "py_get (JObj kvs) k = Inr (case map_of kvs k of None \<Rightarrow> JNull | Some v \<Rightarrow> v)"
| "py_get _ k = Inl AttributeError"

text \<open>
  \<^verbatim>\<open>v[k]\<close> for a string key \<open>k\<close>: a dictionary raises \<^verbatim>\<open>KeyError\<close> on a missing key,
  every other value raises \<^verbatim>\<open>TypeError\<close> (not subscriptable, or indices must be
  integers).
\<close>

fun py_item :: "json \<Rightarrow> string \<Rightarrow> py_error + json" where
  "py_item (JObj kvs) k = (case map_of kvs k of None \<Rightarrow> Inl (KeyError k) | Some v \<Rightarrow> Inr v)"
| "py_item _ k = Inl TypeError"

text \<open>\<^verbatim>\<open>d[k] = v\<close> and \<^verbatim>\<open>d.update(e)\<close> on dictionaries.\<close>

definition dict_set :: "string \<Rightarrow> json \<Rightarrow> (string \<times> json) list \<Rightarrow> (string \<times> json) list" where
  "dict_set k v d = AList.update k v d"

definition dict_update :: "(string \<times> json) list \<Rightarrow> (string \<times> json) list \<Rightarrow> (string \<times> json) list" where
  "dict_update e d = fold (\<lambda>kv. dict_set (fst kv) (snd kv)) e d"

subsection \<open>Formatting: \<^verbatim>\<open>str\<close> and \<^verbatim>\<open>repr\<close>\<close>

function str_of_nat :: "nat \<Rightarrow> string" where
  "str_of_nat n =
     (if n < 10 then [char_of (48 + n)] else str_of_nat (n div 10) @ [char_of (48 + n mod 10)])"
  by pat_completeness auto
termination
  by (relation "measure (\<lambda>n. n)") auto

definition str_of_int :: "int \<Rightarrow> string" where
  "str_of_int i = (if i < 0 then CHR ''-'' # str_of_nat (nat (- i)) else str_of_nat (nat i))"

definition hex_digit :: "nat \<Rightarrow> char" where
  "hex_digit n = ''0123456789abcdef'' ! (n mod 16)"

text \<open>
  \<^verbatim>\<open>repr\<close> of a string: single quotes unless the string has a single quote and no
  double quote; the quote and the backslash are escaped, control characters are written
  \<^verbatim>\<open>\t\<close>, \<^verbatim>\<open>\n\<close>, \<^verbatim>\<open>\r\<close> or \<^verbatim>\<open>\xNN\<close>. The bytes of a character beyond ASCII are
  kept, which is what Python does for the printable ones; the characters beyond ASCII
  that Python escapes as not printable (U+00A0 or U+200B, say) are not told apart here,
  so that on a string with such a character \<open>repr_str\<close> is not Python's \<^verbatim>\<open>repr\<close>.
\<close>

definition repr_char :: "char \<Rightarrow> char \<Rightarrow> string" where
  "repr_char q c =
     (if c = q \<or> c = CHR 0x5C then [CHR 0x5C, c]
      else if c = CHR 0x09 then [CHR 0x5C, CHR ''t'']
      else if c = CHR 0x0A then [CHR 0x5C, CHR ''n'']
      else if c = CHR 0x0D then [CHR 0x5C, CHR ''r'']
      else if (of_char c :: nat) < 32 \<or> (of_char c :: nat) = 127
        then [CHR 0x5C, CHR ''x'', hex_digit (of_char c div 16), hex_digit (of_char c mod 16)]
      else [c])"

definition repr_str :: "string \<Rightarrow> string" where
  "repr_str s =
     (let q = (if CHR 0x27 \<in> set s \<and> CHR 0x22 \<notin> set s then CHR 0x22 else CHR 0x27)
      in [q] @ concat (map (repr_char q) s) @ [q])"

fun join :: "string \<Rightarrow> string list \<Rightarrow> string" where
  "join sep [] = []"
| "join sep [x] = x"
| "join sep (x # y # ys) = x @ sep @ join sep (y # ys)"

fun py_repr :: "json \<Rightarrow> string" where
  "py_repr JNull = ''None''"
| "py_repr (JBool b) = (if b then ''True'' else ''False'')"
| "py_repr (JInt i) = str_of_int i"
| "py_repr (JStr s) = repr_str s"
| "py_repr (JArr xs) = ''['' @ join '', '' (map py_repr xs) @ '']''"
| "py_repr (JObj kvs) =
     ''{'' @ join '', '' (map (\<lambda>kv. repr_str (fst kv) @ '': '' @ py_repr (snd kv)) kvs) @ ''}''"

text \<open>\<^verbatim>\<open>str(v)\<close>, which an f-string applies to each field: a string is itself.\<close>

fun py_str :: "json \<Rightarrow> string" where
  "py_str (JStr s) = s"
| "py_str v = py_repr v"

text \<open>\<^verbatim>\<open>s.upper()\<close> on the ASCII letters (the only letters of a hexadecimal digest).\<close>

definition upper_char :: "char \<Rightarrow> char" where
  "upper_char c =
     (if 97 \<le> (of_char c :: nat) \<and> (of_char c :: nat) \<le> 122 then char_of (of_char c - 32 :: nat) else c)"

definition upper :: "string \<Rightarrow> string" where
  "upper s = map upper_char s"

section \<open>MD5 (\<^verbatim>\<open>hashlib.md5\<close>)\<close>

text \<open>
  The digest of RFC 1321 on 32-bit words: the message is padded to a multiple of 64 bytes
  and each block runs 64 steps on the state \<open>(A, B, C, D)\<close>.
\<close>

definition md5_K :: "32 word list" where
  "md5_K = [
    0xd76aa478, 0xe8c7b756, 0x242070db, 0xc1bdceee, 0xf57c0faf, 0x4787c62a, 0xa8304613, 0xfd469501,
    0x698098d8, 0x8b44f7af, 0xffff5bb1, 0x895cd7be, 0x6b901122, 0xfd987193, 0xa679438e, 0x49b40821,
    0xf61e2562, 0xc040b340, 0x265e5a51, 0xe9b6c7aa, 0xd62f105d, 0x02441453, 0xd8a1e681, 0xe7d3fbc8,
    0x21e1cde6, 0xc33707d6, 0xf4d50d87, 0x455a14ed, 0xa9e3e905, 0xfcefa3f8, 0x676f02d9, 0x8d2a4c8a,
    0xfffa3942, 0x8771f681, 0x6d9d6122, 0xfde5380c, 0xa4beea44, 0x4bdecfa9, 0xf6bb4b60, 0xbebfbc70,
    0x289b7ec6, 0xeaa127fa, 0xd4ef3085, 0x04881d05, 0xd9d4d039, 0xe6db99e5, 0x1fa27cf8, 0xc4ac5665,
    0xf4292244, 0x432aff97, 0xab9423a7, 0xfc93a039, 0x655b59c3, 0x8f0ccc92, 0xffeff47d, 0x85845dd1,
    0x6fa87e4f, 0xfe2ce6e0, 0xa3014314, 0x4e0811a1, 0xf7537e82, 0xbd3af235, 0x2ad7d2bb, 0xeb86d391]"

definition md5_S :: "nat list" where
  "md5_S = [7, 12, 17, 22, 7, 12, 17, 22, 7, 12, 17, 22, 7, 12, 17, 22,
            5, 9, 14, 20, 5, 9, 14, 20, 5, 9, 14, 20, 5, 9, 14, 20,
            4, 11, 16, 23, 4, 11, 16, 23, 4, 11, 16, 23, 4, 11, 16, 23,
            6, 10, 15, 21, 6, 10, 15, 21, 6, 10, 15, 21, 6, 10, 15, 21]"

type_synonym md5_state = "32 word \<times> 32 word \<times> 32 word \<times> 32 word"

definition md5_step :: "32 word list \<Rightarrow> md5_state \<Rightarrow> nat \<Rightarrow> md5_state" where
  "md5_step M st i =
     (case st of (A, B, C, D) \<Rightarrow>
        let F = (if i < 16 then (B AND C) OR (NOT B AND D)
                 else if i < 32 then (D AND B) OR (NOT D AND C)
                 else if i < 48 then B XOR C XOR D
                 else C XOR (B OR NOT D));
            g = (if i < 16 then i
                 else if i < 32 then (5 * i + 1) mod 16
                 else if i < 48 then (3 * i + 5) mod 16
                 else (7 * i) mod 16);
            F' = F + A + md5_K ! i + M ! g
        in (D, B + word_rotl (md5_S ! i) F', B, C))"

definition md5_le32 :: "8 word list \<Rightarrow> 32 word" where
  "md5_le32 bs = foldr (\<lambda>b w. ucast b OR push_bit 8 w) bs 0"

fun md5_words :: "nat \<Rightarrow> 8 word list \<Rightarrow> 32 word list" where
  "md5_words 0 bs = []"
| "md5_words (Suc n) bs = md5_le32 (take 4 bs) # md5_words n (drop 4 bs)"

definition md5_block :: "md5_state \<Rightarrow> 8 word list \<Rightarrow> md5_state" where
  "md5_block st blk =
     (case st of (a0, b0, c0, d0) \<Rightarrow>
        case foldl (md5_step (md5_words 16 blk)) st [0..<64] of
          (A, B, C, D) \<Rightarrow> (a0 + A, b0 + B, c0 + C, d0 + D))"

fun md5_blocks :: "nat \<Rightarrow> md5_state \<Rightarrow> 8 word list \<Rightarrow> md5_state" where
  "md5_blocks 0 st bs = st"
| "md5_blocks (Suc n) st bs = md5_blocks n (md5_block st (take 64 bs)) (drop 64 bs)"

definition md5_bytes_le :: "nat \<Rightarrow> 'a::len word \<Rightarrow> 8 word list" where
  "md5_bytes_le n v = map (\<lambda>k. ucast (drop_bit (8 * k) v)) [0..<n]"

definition md5_pad :: "8 word list \<Rightarrow> 8 word list" where
  "md5_pad msg =
     msg @ [0x80] @ replicate ((119 - length msg mod 64) mod 64) 0
         @ md5_bytes_le 8 (of_nat (8 * length msg) :: 64 word)"

definition md5_digest :: "8 word list \<Rightarrow> 8 word list" where
  "md5_digest msg =
     (let p = md5_pad msg in
      case md5_blocks (length p div 64) (0x67452301, 0xefcdab89, 0x98badcfe, 0x10325476) p of
        (A, B, C, D) \<Rightarrow> concat (map (md5_bytes_le 4) [A, B, C, D]))"

text \<open>\<^verbatim>\<open>.hexdigest()\<close>: two lower-case hexadecimal digits for each byte.\<close>

definition hexdigest :: "8 word list \<Rightarrow> string" where
  "hexdigest bs = concat (map (\<lambda>b. [hex_digit (unat b div 16), hex_digit (unat b mod 16)]) bs)"

text \<open>\<^verbatim>\<open>s.encode('utf-8')\<close>: the bytes of the string.\<close>

definition encode_utf8 :: "string \<Rightarrow> 8 word list" where
  "encode_utf8 s = map (\<lambda>c. of_nat (of_char c)) s"

text \<open>\<^verbatim>\<open>hashlib.md5(s.encode('utf-8')).hexdigest().upper()\<close>, as \<^verbatim>\<open>login\<close> writes it twice.\<close>

definition md5_upper_hex :: "string \<Rightarrow> string" where
  "md5_upper_hex s = upper (hexdigest (md5_digest (encode_utf8 s)))"

section \<open>The HTTP session\<close>

text \<open>
  \<^verbatim>\<open>self._session.post(url, data=json.dumps(data))\<close> hands a URL and an envelope to the
  aiohttp session. The session is represented by what a mock transport observes and
  answers: the list of the POSTs made so far, and a function from that list (the new POST
  last) to the reply. A reply is an exception raised in \<^verbatim>\<open>post\<close> or in \<^verbatim>\<open>resp.text()\<close>
  (an aiohttp error, or the \<^verbatim>\<open>CancelledError\<close> of a cancelled task), or a status code with
  a body. The body is given by what \<^verbatim>\<open>json.loads\<close> does with it:
  \<^item> \<open>Garbled t\<close>: the text \<open>t\<close>, on which \<^verbatim>\<open>json.loads\<close> raises \<^verbatim>\<open>json.JSONDecodeError\<close>;
  \<^item> \<open>Unparsed t e\<close>: the text \<open>t\<close>, on which \<^verbatim>\<open>json.loads\<close> raises the exception \<open>e\<close>
    that is not a \<^verbatim>\<open>JSONDecodeError\<close> (\<^verbatim>\<open>RecursionError\<close> on a deeply nested text, the plain
    \<^verbatim>\<open>ValueError\<close> of the limit on the digits of an integer);
  \<^item> \<open>Document j\<close>: the text of a JSON document, for which \<^verbatim>\<open>json.loads\<close> returns \<open>j\<close>.
\<close>

record wire_request =
  post_url :: string
  post_data :: "(string \<times> json) list"

datatype response_text = Garbled string | Unparsed string py_error | Document json

datatype http_reply = Failure py_error | Response nat response_text

type_synonym transport = "wire_request list \<Rightarrow> http_reply"

section \<open>\<^verbatim>\<open>CoaxialControlIOStatus\<close>\<close>

record CoaxialControlIOStatus =
  speaker :: bool
  white_light :: bool
  api_response :: json

text \<open>
  \<^verbatim>\<open>CoaxialControlIOStatus(api_response=r)\<close>: the two flags default to \<^verbatim>\<open>False\<close> and
  \<^verbatim>\<open>__post_init__\<close> reads them from the response.
\<close>

definition post_init :: "CoaxialControlIOStatus \<Rightarrow> py_error + CoaxialControlIOStatus" where
  "post_init st =
     (if api_response st \<noteq> JNull then
        (case py_item (api_response st) ''params'' of Inl e \<Rightarrow> Inl e | Inr p \<Rightarrow>
        (case py_item p ''status'' of Inl e \<Rightarrow> Inl e | Inr t \<Rightarrow>
        (case py_item t ''Speaker'' of Inl e \<Rightarrow> Inl e | Inr sp \<Rightarrow>
        (let st = st\<lparr>speaker := (sp = JStr ''On'')\<rparr> in
        (case py_item (api_response st) ''params'' of Inl e \<Rightarrow> Inl e | Inr p \<Rightarrow>
        (case py_item p ''status'' of Inl e \<Rightarrow> Inl e | Inr t \<Rightarrow>
        (case py_item t ''WhiteLight'' of Inl e \<Rightarrow> Inl e | Inr wl \<Rightarrow>
           Inr (st\<lparr>white_light := (wl = JStr ''On'')\<rparr>))))))))
      else Inr st)"

definition new_CoaxialControlIOStatus :: "json \<Rightarrow> py_error + CoaxialControlIOStatus" where
  "new_CoaxialControlIOStatus r =
     post_init \<lparr>speaker = False, white_light = False, api_response = r\<rparr>"

section \<open>\<^verbatim>\<open>DahuaRpc2Client\<close>\<close>

text \<open>
  The fields of the client. \<open>rpc_id\<close> is the source's \<^verbatim>\<open>_id\<close>, \<open>posted\<close> stands for
  \<^verbatim>\<open>_session\<close>: the POSTs made through it, oldest first.
\<close>

record client =
  username :: string
  password :: string
  rtsp_port :: int
  session_id :: json
  rpc_id :: int
  base :: string
  logged_in :: bool
  posted :: "wire_request list"

definition init_client :: "string \<Rightarrow> string \<Rightarrow> string \<Rightarrow> int \<Rightarrow> int \<Rightarrow> client" where
  "init_client user pass address port rtsp =
     (let protocol = (if port = 443 then ''https'' else ''http'')
      in \<lparr>username = user, password = pass, rtsp_port = rtsp, session_id = JNull, rpc_id = 0,
          base = protocol @ ''://'' @ address @ '':'' @ str_of_int port,
          logged_in = False, posted = []\<rparr>)"

subsection \<open>\<^verbatim>\<open>request\<close>\<close>

text \<open>
  The envelope \<^verbatim>\<open>data\<close>, built from \<^verbatim>\<open>self._id\<close> (already incremented) and
  \<^verbatim>\<open>self._session_id\<close>. \<open>JNull\<close> for \<open>params\<close> and \<open>None\<close> for \<open>extra\<close> are the
  defaults \<^verbatim>\<open>None\<close>.
\<close>

definition request_data ::
  "int \<Rightarrow> json \<Rightarrow> string \<Rightarrow> json \<Rightarrow> json \<Rightarrow> (string \<times> json) list option \<Rightarrow> (string \<times> json) list" where
  "request_data self_id self_session_id method params object_id extra =
     (let data = [(''method'', JStr method), (''id'', JInt self_id)];
          data = (if params \<noteq> JNull then dict_set ''params'' params data else data);
          data = (if truthy object_id then dict_set ''object'' object_id data else data);
          data = (case extra of None \<Rightarrow> data | Some e \<Rightarrow> dict_update e data);
          data = (if truthy self_session_id then dict_set ''session'' self_session_id data
                  else data)
      in data)"

definition request ::
  "transport \<Rightarrow> client \<Rightarrow> string \<Rightarrow> json \<Rightarrow> json \<Rightarrow> (string \<times> json) list option \<Rightarrow> string option
     \<Rightarrow> bool \<Rightarrow> (py_error + json) \<times> client" where
  "request tr c method params object_id extra url verify_result =
     (let c = c\<lparr>rpc_id := rpc_id c + 1\<rparr>;
          data = request_data (rpc_id c) (session_id c) method params object_id extra;
          url = (case url of None \<Rightarrow> base c @ ''/RPC2''
                 | Some u \<Rightarrow> if u = [] then base c @ ''/RPC2'' else u);
          c = c\<lparr>posted := posted c @ [\<lparr>post_url = url, post_data = data\<rparr>]\<rparr>
      in case tr (posted c) of
           Failure e \<Rightarrow> (Inl e, c)
         | Response status text \<Rightarrow>
             (case text of
                Garbled t \<Rightarrow> (Inl (ValueError ''Failed to decode JSON response''), c)
              | Unparsed t e \<Rightarrow> (Inl e, c)
              | Document resp_json \<Rightarrow>
                  if verify_result then
                    (case py_get resp_json ''result'' of
                       Inl e \<Rightarrow> (Inl e, c)
                     | Inr r \<Rightarrow>
                         if is_False r
                         then (Inl (ConnectionError (''API call failed: '' @ py_str resp_json)), c)
                         else (Inr resp_json, c))
                  else (Inr resp_json, c)))"

subsection \<open>\<^verbatim>\<open>current_time\<close>, \<^verbatim>\<open>login\<close>, \<^verbatim>\<open>logout\<close>\<close>

definition current_time :: "transport \<Rightarrow> client \<Rightarrow> (py_error + json) \<times> client" where
  "current_time tr c =
     (case request tr c ''global.getCurrentTime'' JNull JNull None None True of
        (Inl e, c) \<Rightarrow> (Inl e, c)
      | (Inr response, c) \<Rightarrow>
          (case py_item response ''params'' of Inl e \<Rightarrow> (Inl e, c) | Inr p \<Rightarrow>
          (case py_item p ''time'' of Inl e \<Rightarrow> (Inl e, c) | Inr t \<Rightarrow> (Inr t, c))))"

text \<open>
  \<^verbatim>\<open>login\<close> returns the final response, or \<^verbatim>\<open>False\<close> (\<open>JBool False\<close>). The f-string
  of the success message calls \<^verbatim>\<open>current_time\<close> before \<^verbatim>\<open>_LOGGER.info\<close> sees it.
\<close>

definition login :: "transport \<Rightarrow> client \<Rightarrow> (py_error + json) \<times> client" where
  "login tr c =
     (let c = c\<lparr>session_id := JNull\<rparr>;
          c = c\<lparr>rpc_id := 0\<rparr>;
          url = base c @ ''/RPC2_Login'';
          method = ''global.login'';
          params = JObj [(''userName'', JStr (username c)),
                         (''password'', JStr []),
                         (''clientType'', JStr ''Dahua3.0-Web3.0'')]
      in case request tr c method params JNull None (Some url) False of
           (Inl e, c) \<Rightarrow> (Inl e, c)
         | (Inr r, c) \<Rightarrow>
             (case py_item r ''session'' of Inl e \<Rightarrow> (Inl e, c) | Inr s \<Rightarrow>
             (let c = c\<lparr>session_id := s\<rparr> in
             (case py_item r ''params'' of Inl e \<Rightarrow> (Inl e, c) | Inr p \<Rightarrow>
             (case py_item p ''realm'' of Inl e \<Rightarrow> (Inl e, c) | Inr realm \<Rightarrow>
             (case py_item r ''params'' of Inl e \<Rightarrow> (Inl e, c) | Inr p \<Rightarrow>
             (case py_item p ''random'' of Inl e \<Rightarrow> (Inl e, c) | Inr random \<Rightarrow>
             (let pwd_phrase = username c @ '':'' @ py_str realm @ '':'' @ password c;
                  pwd_hash = md5_upper_hex pwd_phrase;
                  pass_phrase = username c @ '':'' @ py_str random @ '':'' @ pwd_hash;
                  pass_hash = md5_upper_hex pass_phrase;
                  params = JObj [(''userName'', JStr (username c)),
                                 (''password'', JStr pass_hash),
                                 (''clientType'', JStr ''Dahua3.0-Web3.0''),
                                 (''authorityType'', JStr ''Default''),
                                 (''passwordType'', JStr ''Default'')]
              in case request tr c method params JNull None (Some url) True of
                   (Inl e, c) \<Rightarrow> (Inl e, c)
                 | (Inr response, c) \<Rightarrow>
                     (case py_get response ''result'' of Inl e \<Rightarrow> (Inl e, c) | Inr res \<Rightarrow>
                        if eq_True res then
                          (let c = c\<lparr>logged_in := True\<rparr>
                           in case current_time tr c of
                                (Inl e, c) \<Rightarrow> (Inl e, c)
                              | (Inr t, c) \<Rightarrow> (Inr response, c))
                        else (Inr (JBool False), c))))))))))"

text \<open>
  \<^verbatim>\<open>logout\<close>: \<^verbatim>\<open>except Exception\<close> turns an exception of the body into \<^verbatim>\<open>False\<close> when it
  derives from \<^verbatim>\<open>Exception\<close>; any other exception leaves \<^verbatim>\<open>logout\<close> as it is.
\<close>

definition logout :: "transport \<Rightarrow> client \<Rightarrow> (py_error + bool) \<times> client" where
  "logout tr c =
     (case request tr c ''global.logout'' JNull JNull None None True of
        (Inl e, c) \<Rightarrow> if is_Exception e then (Inr False, c) else (Inl e, c)
      | (Inr response, c) \<Rightarrow>
          (case py_get response ''result'' of
             Inl e \<Rightarrow> if is_Exception e then (Inr False, c) else (Inl e, c)
           | Inr res \<Rightarrow> if is_True res then (Inr True, c) else (Inr False, c)))"

subsection \<open>The typed operations\<close>

definition get_serial_number :: "transport \<Rightarrow> client \<Rightarrow> (py_error + json) \<times> client" where
  "get_serial_number tr c =
     (case request tr c ''magicBox.getSerialNo'' JNull JNull None None True of
        (Inl e, c) \<Rightarrow> (Inl e, c)
      | (Inr response, c) \<Rightarrow>
          (case py_item response ''params'' of Inl e \<Rightarrow> (Inl e, c) | Inr p \<Rightarrow>
          (case py_item p ''sn'' of Inl e \<Rightarrow> (Inl e, c) | Inr sn \<Rightarrow> (Inr sn, c))))"

definition get_config :: "transport \<Rightarrow> client \<Rightarrow> json \<Rightarrow> (py_error + json) \<times> client" where
  "get_config tr c params =
     (case request tr c ''configManager.getConfig'' params JNull None None True of
        (Inl e, c) \<Rightarrow> (Inl e, c)
      | (Inr response, c) \<Rightarrow>
          (case py_item response ''params'' of Inl e \<Rightarrow> (Inl e, c) | Inr p \<Rightarrow> (Inr p, c)))"

definition get_device_name :: "transport \<Rightarrow> client \<Rightarrow> (py_error + json) \<times> client" where
  "get_device_name tr c =
     (case get_config tr c (JObj [(''name'', JStr ''General'')]) of
        (Inl e, c) \<Rightarrow> (Inl e, c)
      | (Inr data, c) \<Rightarrow>
          (case py_item data ''table'' of Inl e \<Rightarrow> (Inl e, c) | Inr t \<Rightarrow>
          (case py_item t ''MachineName'' of Inl e \<Rightarrow> (Inl e, c) | Inr n \<Rightarrow> (Inr n, c))))"

definition get_coaxial_control_io_status ::
  "transport \<Rightarrow> client \<Rightarrow> int \<Rightarrow> (py_error + CoaxialControlIOStatus) \<times> client" where
  "get_coaxial_control_io_status tr c channel =
     (case login tr c of
        (Inl e, c) \<Rightarrow> (Inl e, c)
      | (Inr l, c) \<Rightarrow>
          (case request tr c ''CoaxialControlIO.getStatus'' (JObj [(''channel'', JInt channel)])
                  JNull None None True of
             (Inl e, c) \<Rightarrow> (Inl e, c)
           | (Inr response, c) \<Rightarrow>
               (case new_CoaxialControlIOStatus response of
                  Inl e \<Rightarrow> (Inl e, c)
                | Inr st \<Rightarrow> (Inr st, c))))"

definition set_coaxial_control_io_status ::
  "transport \<Rightarrow> client \<Rightarrow> int \<Rightarrow> int \<Rightarrow> int \<Rightarrow> int \<Rightarrow> (py_error + CoaxialControlIOStatus) \<times> client" where
  "set_coaxial_control_io_status tr c channel type io trigger_mode =
     (case login tr c of
        (Inl e, c) \<Rightarrow> (Inl e, c)
      | (Inr l, c) \<Rightarrow>
          (case request tr c ''CoaxialControlIO.control''
                  (JObj [(''channel'', JInt channel),
                         (''info'', JArr [JObj [(''Type'', JInt type), (''IO'', JInt io),
                                               (''TriggerMode'', JInt trigger_mode)]])])
                  JNull None None True of
             (Inl e, c) \<Rightarrow> (Inl e, c)
           | (Inr r, c) \<Rightarrow> get_coaxial_control_io_status tr c channel))"

section \<open>Observing a run\<close>

text \<open>
  \<open>reply_at tr c n\<close> is the reply of the transport to POST number \<open>n\<close> (from 0) of the
  log of \<open>c\<close>; \<open>new_posts c c'\<close> are the POSTs made between the states \<open>c\<close> and \<open>c'\<close>.
\<close>

definition reply_at :: "transport \<Rightarrow> client \<Rightarrow> nat \<Rightarrow> http_reply" where
  "reply_at tr c n = tr (take (Suc n) (posted c))"

definition new_posts :: "client \<Rightarrow> client \<Rightarrow> wire_request list" where
  "new_posts c c' = drop (length (posted c)) (posted c')"

definition wire_field :: "wire_request \<Rightarrow> string \<Rightarrow> json option" where
  "wire_field w k = map_of (post_data w) k"

text \<open>
  The POST that \<^verbatim>\<open>request\<close> makes for a base URL, an id (the incremented counter) and a
  session token, and the result of \<^verbatim>\<open>request\<close> for a given reply.
\<close>

definition sent ::
  "string \<Rightarrow> int \<Rightarrow> json \<Rightarrow> string \<Rightarrow> json \<Rightarrow> json \<Rightarrow> (string \<times> json) list option
     \<Rightarrow> string option \<Rightarrow> wire_request" where
  "sent b n s method params object_id extra url =
     \<lparr>post_url = (case url of None \<Rightarrow> b @ ''/RPC2''
                   | Some u \<Rightarrow> if u = [] then b @ ''/RPC2'' else u),
      post_data = request_data n s method params object_id extra\<rparr>"

definition outcome :: "http_reply \<Rightarrow> bool \<Rightarrow> py_error + json" where
  "outcome reply verify_result =
     (case reply of
        Failure e \<Rightarrow> Inl e
      | Response status text \<Rightarrow>
          (case text of
             Garbled t \<Rightarrow> Inl (ValueError ''Failed to decode JSON response'')
           | Unparsed t e \<Rightarrow> Inl e
           | Document resp_json \<Rightarrow>
               if verify_result then
                 (case py_get resp_json ''result'' of
                    Inl e \<Rightarrow> Inl e
                  | Inr r \<Rightarrow>
                      if is_False r
                      then Inl (ConnectionError (''API call failed: '' @ py_str resp_json))
                      else Inr resp_json)
               else Inr resp_json))"

text \<open>
  What a reply carries: the challenge material that \<^verbatim>\<open>login\<close> reads from its first
  response (\<^verbatim>\<open>r['session']\<close>, \<^verbatim>\<open>r['params']['realm']\<close>, \<^verbatim>\<open>r['params']['random']\<close>), and
  the value of \<^verbatim>\<open>response.get('result')\<close> of a reply that decodes to an object.
\<close>

fun challenge_of :: "http_reply \<Rightarrow> (json \<times> json \<times> json) option" where
  "challenge_of (Response status (Document r)) =
     (case py_item r ''session'' of Inl e \<Rightarrow> None | Inr s \<Rightarrow>
     (case py_item r ''params'' of Inl e \<Rightarrow> None | Inr p \<Rightarrow>
     (case py_item p ''realm'' of Inl e \<Rightarrow> None | Inr realm \<Rightarrow>
     (case py_item p ''random'' of Inl e \<Rightarrow> None | Inr random \<Rightarrow> Some (s, realm, random)))))"
| "challenge_of _ = None"

fun result_of :: "http_reply \<Rightarrow> json option" where
  "result_of (Response status (Document (JObj kvs))) =
     Some (case map_of kvs ''result'' of None \<Rightarrow> JNull | Some v \<Rightarrow> v)"
| "result_of _ = None"

text \<open>\<^verbatim>\<open>response['params']['time']\<close> can be read from the reply.\<close>

fun has_params_time :: "http_reply \<Rightarrow> bool" where
  "has_params_time (Response status (Document t)) =
     (case py_item t ''params'' of Inl e \<Rightarrow> False | Inr p \<Rightarrow>
     (case py_item p ''time'' of Inl e \<Rightarrow> False | Inr v \<Rightarrow> True))"
| "has_params_time _ = False"

text \<open>The reply is an exception that does not derive from \<^verbatim>\<open>Exception\<close>.\<close>

fun raises_base_exception :: "http_reply \<Rightarrow> bool" where
  "raises_base_exception (Failure e) = (\<not> is_Exception e)"
| "raises_base_exception (Response status (Unparsed t e)) = (\<not> is_Exception e)"
| "raises_base_exception _ = False"

definition has_key :: "(string \<times> json) list option \<Rightarrow> string \<Rightarrow> bool" where
  "has_key extra k = (case extra of None \<Rightarrow> False | Some e \<Rightarrow> k \<in> fst ` set e)"

text \<open>The method names of a list of POSTs.\<close>

definition method_of :: "wire_request \<Rightarrow> string" where
  "method_of w = (case wire_field w ''method'' of Some (JStr m) \<Rightarrow> m | _ \<Rightarrow> [])"

definition methods :: "wire_request list \<Rightarrow> string list" where
  "methods ws = map method_of ws"

text \<open>
  The POSTs of \<^verbatim>\<open>login\<close>: the challenge, the hash phase for a given challenge, and the
  \<^verbatim>\<open>global.getCurrentTime\<close> of a successful login.
\<close>

definition challenge_post :: "client \<Rightarrow> wire_request" where
  "challenge_post c =
     sent (base c) 1 JNull ''global.login''
       (JObj [(''userName'', JStr (username c)),
              (''password'', JStr []),
              (''clientType'', JStr ''Dahua3.0-Web3.0'')])
       JNull None (Some (base c @ ''/RPC2_Login''))"

definition time_post :: "client \<Rightarrow> json \<Rightarrow> wire_request" where
  "time_post c s = sent (base c) 3 s ''global.getCurrentTime'' JNull JNull None None"

definition hash_post :: "client \<Rightarrow> json \<Rightarrow> json \<Rightarrow> json \<Rightarrow> wire_request" where
  "hash_post c s realm random =
     sent (base c) 2 s ''global.login''
       (JObj [(''userName'', JStr (username c)),
              (''password'', JStr (md5_upper_hex (username c @ '':'' @ py_str random @ '':'' @
                   md5_upper_hex (username c @ '':'' @ py_str realm @ '':'' @ password c)))),
              (''clientType'', JStr ''Dahua3.0-Web3.0''),
              (''authorityType'', JStr ''Default''),
              (''passwordType'', JStr ''Default'')])
       JNull None (Some (base c @ ''/RPC2_Login''))"

text \<open>The states of the client in the course of \<^verbatim>\<open>login\<close>.\<close>

definition challenged :: "client \<Rightarrow> json \<Rightarrow> client" where
  "challenged c s = c\<lparr>session_id := s, rpc_id := 1, posted := posted c @ [challenge_post c]\<rparr>"

definition after_challenge :: "client \<Rightarrow> json \<Rightarrow> json \<Rightarrow> json \<Rightarrow> client" where
  "after_challenge c s realm random =
     c\<lparr>session_id := s, rpc_id := 2,
       posted := posted c @ [challenge_post c, hash_post c s realm random]\<rparr>"

definition after_login :: "client \<Rightarrow> json \<Rightarrow> json \<Rightarrow> json \<Rightarrow> client" where
  "after_login c s realm random =
     c\<lparr>session_id := s, rpc_id := 3, logged_in := True,
       posted := posted c @ [challenge_post c, hash_post c s realm random, time_post c s]\<rparr>"

section \<open>Sequences of calls\<close>

text \<open>
  The public operations of the client, and a caller that performs a list of them on one
  client, going on after an operation that raised.
\<close>

datatype call =
    Request string json json "(string \<times> json) list option" "string option" bool
  | Login
  | Logout
  | CurrentTime
  | GetSerialNumber
  | GetConfig json
  | GetDeviceName
  | GetCoaxialControlIOStatus int
  | SetCoaxialControlIOStatus int int int int

fun perform :: "transport \<Rightarrow> call \<Rightarrow> client \<Rightarrow> client" where
  "perform tr (Request m p oid e u vr) c = snd (request tr c m p oid e u vr)"
| "perform tr Login c = snd (login tr c)"
| "perform tr Logout c = snd (logout tr c)"
| "perform tr CurrentTime c = snd (current_time tr c)"
| "perform tr GetSerialNumber c = snd (get_serial_number tr c)"
| "perform tr (GetConfig p) c = snd (get_config tr c p)"
| "perform tr GetDeviceName c = snd (get_device_name tr c)"
| "perform tr (GetCoaxialControlIOStatus ch) c = snd (get_coaxial_control_io_status tr c ch)"
| "perform tr (SetCoaxialControlIOStatus ch ty io tm) c =
     snd (set_coaxial_control_io_status tr c ch ty io tm)"

definition perform_all :: "transport \<Rightarrow> call list \<Rightarrow> client \<Rightarrow> client" where
  "perform_all tr calls c = fold (perform tr) calls c"

text \<open>A call that does not pass an \<^verbatim>\<open>id\<close> key in \<^verbatim>\<open>extra\<close>.\<close>

fun keeps_id :: "call \<Rightarrow> bool" where
  "keeps_id (Request m p oid e u vr) = (\<not> has_key e ''id'')"
| "keeps_id _ = True"

text \<open>
  The numbering of a list of POSTs that starts after the counter value \<open>n\<close>: each POST
  carries the id after its predecessor's, except that the challenge of a login of the
  user \<open>user\<close> starts again at 1.
\<close>

definition is_challenge :: "string \<Rightarrow> wire_request \<Rightarrow> bool" where
  "is_challenge user w =
     (wire_field w ''method'' = Some (JStr ''global.login'')
      \<and> wire_field w ''params'' = Some (JObj [(''userName'', JStr user),
                                              (''password'', JStr []),
                                              (''clientType'', JStr ''Dahua3.0-Web3.0'')])
      \<and> wire_field w ''id'' = Some (JInt 1))"

fun id_chain :: "string \<Rightarrow> int \<Rightarrow> wire_request list \<Rightarrow> bool" where
  "id_chain user n [] = True"
| "id_chain user n (w # ws) =
     (if is_challenge user w then id_chain user 1 ws
      else wire_field w ''id'' = Some (JInt (n + 1)) \<and> id_chain user (n + 1) ws)"

fun chain_end :: "string \<Rightarrow> int \<Rightarrow> wire_request list \<Rightarrow> int" where
  "chain_end user n [] = n"
| "chain_end user n (w # ws) = chain_end user (if is_challenge user w then 1 else n + 1) ws"

text \<open>
  The method names that the POSTs of one call can have, in order. A login that got as far
  as its hash phase has posted \<open>login_traces\<close>: with \<^verbatim>\<open>global.getCurrentTime\<close> when the hash
  phase succeeded, without it otherwise.
\<close>

definition login_traces :: "string list list" where
  "login_traces =
     [[''global.login'', ''global.login''],
      [''global.login'', ''global.login'', ''global.getCurrentTime'']]"



text \<open>
  \<open>follows c c'\<close>: the state \<open>c'\<close> comes after \<open>c\<close> by POSTs that are numbered as
  \<open>id_chain\<close> says, and its counter is where that numbering ends.
\<close>

definition follows :: "client \<Rightarrow> client \<Rightarrow> bool" where
  "follows c c' =
     (username c' = username c
      \<and> take (length (posted c)) (posted c') = posted c
      \<and> id_chain (username c) (rpc_id c) (new_posts c c')
      \<and> chain_end (username c) (rpc_id c) (new_posts c c') = rpc_id c')"

section \<open>A scripted transport\<close>

text \<open>
  A mock transport that answers the \<open>n\<close>-th POST with the \<open>n\<close>-th reply of a script, and
  a client to run against it.
\<close>

definition scripted :: "http_reply list \<Rightarrow> transport" where
  "scripted replies log =
     (if log \<noteq> [] \<and> length log \<le> length replies then replies ! (length log - 1)
      else Failure (TransportError ''ServerDisconnectedError''))"

definition camera :: client where
  "camera = init_client ''admin'' ''secret'' ''192.168.1.108'' 80 554"

definition challenge_reply :: http_reply where
  "challenge_reply =
     Response 200 (Document (JObj [(''session'', JStr ''S1''),
                                   (''params'', JObj [(''realm'', JStr ''ABCDEF''),
                                                      (''random'', JStr ''123456'')])]))"

text \<open>A body of 100000 opening brackets, on which \<^verbatim>\<open>json.loads\<close> raises \<^verbatim>\<open>RecursionError\<close>.\<close>

definition deeply_nested_reply :: http_reply where
  "deeply_nested_reply = Response 200 (Unparsed (replicate 100000 (CHR ''['')) RecursionError)"

definition login_ok_reply :: http_reply where
  "login_ok_reply = Response 200 (Document (JObj [(''result'', JBool True)]))"

definition time_reply :: http_reply where
  "time_reply =
     Response 200 (Document (JObj [(''result'', JBool True),
                                   (''params'', JObj [(''time'', JStr ''2024-05-01 12:00:00'')])]))"

definition status_reply :: http_reply where
  "status_reply =
     Response 200 (Document (JObj [(''result'', JBool True),
                                   (''params'', JObj [(''status'',
                                      JObj [(''Speaker'', JStr ''On''),
                                            (''WhiteLight'', JStr ''Off'')])])]))"

section \<open>Properties of \<^verbatim>\<open>request\<close>\<close>

lemma request_eq:
  "request tr c m p oid e u vr =
     (outcome (tr (posted c @ [sent (base c) (rpc_id c + 1) (session_id c) m p oid e u])) vr,
      c\<lparr>rpc_id := rpc_id c + 1,
        posted := posted c @ [sent (base c) (rpc_id c + 1) (session_id c) m p oid e u]\<rparr>)"
proof (cases u)
  case None
  then show ?thesis
    by (simp add: request_def sent_def outcome_def Let_def
             split: http_reply.split response_text.split sum.split)
next
  case (Some a)
  then show ?thesis
    by (cases "a = []")
       (simp_all add: request_def sent_def outcome_def Let_def
                 split: http_reply.split response_text.split sum.split)
qed

lemma map_of_dict_set: "map_of (dict_set k v d) = (map_of d)(k \<mapsto> v)"
  by (simp add: dict_set_def update_conv')

lemma map_of_dict_update:
  "distinct (map fst e) \<Longrightarrow> map_of (dict_update e d) = map_of d ++ map_of e"
  unfolding dict_update_def
proof (induction e arbitrary: d)
  case Nil
  then show ?case by simp
next
  case (Cons kv e)
  obtain k v where kv: "kv = (k, v)" by (cases kv)
  from Cons.prems kv have k: "k \<notin> fst ` set e" and d: "distinct (map fst e)" by auto
  from k have none: "map_of e k = None" by (simp add: map_of_eq_None_iff)
  have "map_of (fold (\<lambda>kv. dict_set (fst kv) (snd kv)) e (dict_set k v d)) x
          = (map_of d ++ map_of ((k, v) # e)) x" for x
    using Cons.IH [OF d, of "dict_set k v d"] none
    by (auto simp: map_of_dict_set map_add_def split: option.splits)
  then show ?case by (auto simp: kv fun_eq_iff map_add_def split: option.splits)
qed

lemma camera_simps:
  "posted camera = []" "rpc_id camera = 0" "session_id camera = JNull"
  "username camera = ''admin''" "password camera = ''secret''" "logged_in camera = False"
  by (simp_all add: camera_def init_client_def)

text \<open>
  C6 (as amended). If \<^verbatim>\<open>json.loads\<close> rejects the body of the HTTP response with a
  \<^verbatim>\<open>JSONDecodeError\<close>, \<^verbatim>\<open>request\<close> fails with the decode error (the source's
  \<^verbatim>\<open>ValueError("Failed to decode JSON response")\<close>), whatever the status code and
  whatever \<^verbatim>\<open>verify_result\<close>; exactly one POST has been made, so nothing was retried.
\<close>

theorem request_garbled_body_raises:
  assumes "reply_at tr (snd (request tr c m p oid e u vr)) (length (posted c))
             = Response status (Garbled t)"
  shows "fst (request tr c m p oid e u vr) = Inl (ValueError ''Failed to decode JSON response'')
         \<and> length (new_posts c (snd (request tr c m p oid e u vr))) = 1"
  using assms by (simp add: request_eq reply_at_def outcome_def new_posts_def)

theorem request_garbled_body_raises_witness:
  "reply_at (scripted [Response 500 (Garbled ''<html>Internal error</html>'')])
      (snd (request (scripted [Response 500 (Garbled ''<html>Internal error</html>'')]) camera
              ''magicBox.getSerialNo'' JNull JNull None None True))
      (length (posted camera))
     = Response 500 (Garbled ''<html>Internal error</html>'')
   \<and> fst (request (scripted [Response 500 (Garbled ''<html>Internal error</html>'')]) camera
              ''magicBox.getSerialNo'' JNull JNull None None True)
     = Inl (ValueError ''Failed to decode JSON response'')"
proof -
  let ?tr = "scripted [Response 500 (Garbled ''<html>Internal error</html>'')]"
  have h: "reply_at ?tr (snd (request ?tr camera ''magicBox.getSerialNo'' JNull JNull None None True))
             (length (posted camera))
           = Response 500 (Garbled ''<html>Internal error</html>'')"
    by (simp add: request_eq reply_at_def scripted_def camera_simps)
  show ?thesis
    using h request_garbled_body_raises [OF h] by simp
qed

text \<open>
  C6 as stated fails for a body that is not JSON and on which \<^verbatim>\<open>json.loads\<close> raises
  something else than \<^verbatim>\<open>JSONDecodeError\<close>: \<^verbatim>\<open>except json.JSONDecodeError\<close> does not catch
  the \<^verbatim>\<open>RecursionError\<close> of a body of 100000 opening brackets, which leaves
  \<^verbatim>\<open>request\<close> as it is.
\<close>

theorem request_unparsed_body_counterexample:
  "fst (request (scripted [deeply_nested_reply]) camera ''magicBox.getSerialNo'' JNull JNull
          None None True) = Inl RecursionError
   \<and> RecursionError \<noteq> ValueError ''Failed to decode JSON response''"
  by (simp add: request_eq scripted_def camera_simps outcome_def deeply_nested_reply_def)

text \<open>
  C4. If the decoded response is an object whose \<^verbatim>\<open>result\<close> is \<^verbatim>\<open>false\<close>, then
  \<^verbatim>\<open>request\<close> with \<^verbatim>\<open>verify_result=True\<close> raises the API-call error (the source's
  \<^verbatim>\<open>ConnectionError\<close>), whose message is formatted from the whole decoded response, and
  with \<^verbatim>\<open>verify_result=False\<close> it returns the decoded response.
\<close>

theorem request_result_false:
  assumes "reply_at tr (snd (request tr c m p oid e u True)) (length (posted c))
             = Response status (Document (JObj kvs))"
    and "map_of kvs ''result'' = Some (JBool False)"
  shows "fst (request tr c m p oid e u True)
           = Inl (ConnectionError (''API call failed: '' @ py_str (JObj kvs)))
         \<and> fst (request tr c m p oid e u False) = Inr (JObj kvs)"
  using assms by (simp add: request_eq reply_at_def outcome_def is_False_def)

theorem request_result_false_witness:
  "reply_at (scripted [Response 200 (Document (JObj [(''result'', JBool False)]))])
      (snd (request (scripted [Response 200 (Document (JObj [(''result'', JBool False)]))]) camera
              ''magicBox.getSerialNo'' JNull JNull None None True))
      (length (posted camera))
     = Response 200 (Document (JObj [(''result'', JBool False)]))
   \<and> map_of [(''result'', JBool False)] ''result'' = Some (JBool False)
   \<and> fst (request (scripted [Response 200 (Document (JObj [(''result'', JBool False)]))]) camera
              ''magicBox.getSerialNo'' JNull JNull None None True)
     = Inl (ConnectionError (''API call failed: '' @ py_str (JObj [(''result'', JBool False)])))
   \<and> fst (request (scripted [Response 200 (Document (JObj [(''result'', JBool False)]))]) camera
              ''magicBox.getSerialNo'' JNull JNull None None False)
     = Inr (JObj [(''result'', JBool False)])"
proof -
  let ?tr = "scripted [Response 200 (Document (JObj [(''result'', JBool False)]))]"
  have h: "reply_at ?tr (snd (request ?tr camera ''magicBox.getSerialNo'' JNull JNull None None True))
             (length (posted camera))
           = Response 200 (Document (JObj [(''result'', JBool False)]))"
    by (simp add: request_eq reply_at_def scripted_def camera_simps)
  have r: "map_of [(''result'', JBool False)] ''result'' = Some (JBool False)"
    by simp
  show ?thesis
    using h r request_result_false [OF h r] by simp
qed

lemma map_of_dict_update_other:
  "k \<notin> fst ` set e \<Longrightarrow> map_of (dict_update e d) k = map_of d k"
  unfolding dict_update_def
  by (induction e arbitrary: d) (auto simp: map_of_dict_set)

lemma last_posted_request:
  "last (posted (snd (request tr c m p oid e u vr)))
     = sent (base c) (rpc_id c + 1) (session_id c) m p oid e u"
  by (simp add: request_eq)

lemma wire_field_sent:
  "wire_field (sent b n s m p oid e u) k = map_of (request_data n s m p oid e) k"
  by (simp add: wire_field_def sent_def)

text \<open>
  C8 (as amended). \<^verbatim>\<open>extra\<close> is merged after \<^verbatim>\<open>method\<close>, \<^verbatim>\<open>id\<close>, \<^verbatim>\<open>params\<close> and
  \<^verbatim>\<open>object\<close> but before \<^verbatim>\<open>session\<close>: every key of \<^verbatim>\<open>extra\<close> other than
  \<^verbatim>\<open>session\<close> is sent with the value from \<^verbatim>\<open>extra\<close>, and so is \<^verbatim>\<open>session\<close> when the
  client holds no session token; when it holds one, the \<^verbatim>\<open>session\<close> sent is the client's
  token, whatever \<^verbatim>\<open>extra\<close> says.
\<close>

theorem request_extra_overrides:
  assumes "distinct (map fst e)" and "map_of e k = Some v"
  shows "(k \<noteq> ''session'' \<or> \<not> truthy (session_id c) \<longrightarrow>
            wire_field (last (posted (snd (request tr c m p oid (Some e) u vr)))) k = Some v)
         \<and> (truthy (session_id c) \<longrightarrow>
            wire_field (last (posted (snd (request tr c m p oid (Some e) u vr)))) ''session''
              = Some (session_id c))"
  using assms
  by (auto simp: last_posted_request wire_field_sent request_data_def Let_def
                 map_of_dict_set map_of_dict_update map_add_def)

theorem request_extra_overrides_witness:
  "distinct (map fst [(''method'', JStr ''X''), (''id'', JInt 99), (''session'', JStr ''X'')])
   \<and> map_of [(''method'', JStr ''X''), (''id'', JInt 99), (''session'', JStr ''X'')] ''id'' = Some (JInt 99)
   \<and> truthy (session_id (camera\<lparr>session_id := JStr ''S1''\<rparr>))
   \<and> wire_field (last (posted (snd (request (scripted [login_ok_reply]) (camera\<lparr>session_id := JStr ''S1''\<rparr>)
         ''magicBox.getSerialNo'' JNull JNull
         (Some [(''method'', JStr ''X''), (''id'', JInt 99), (''session'', JStr ''X'')]) None True)))) ''id''
       = Some (JInt 99)
   \<and> wire_field (last (posted (snd (request (scripted [login_ok_reply]) (camera\<lparr>session_id := JStr ''S1''\<rparr>)
         ''magicBox.getSerialNo'' JNull JNull
         (Some [(''method'', JStr ''X''), (''id'', JInt 99), (''session'', JStr ''X'')]) None True)))) ''session''
       = Some (JStr ''S1'')"
proof -
  let ?e = "[(''method'', JStr ''X''), (''id'', JInt 99), (''session'', JStr ''X'')]"
  have d: "distinct (map fst ?e)" by simp
  have k: "map_of ?e ''id'' = Some (JInt 99)" by simp
  show ?thesis
    using d k request_extra_overrides [OF d k, of "camera\<lparr>session_id := JStr ''S1''\<rparr>"
        "scripted [login_ok_reply]" "''magicBox.getSerialNo''" JNull JNull None True]
    by simp
qed

text \<open>
  C8 as stated fails for the key \<^verbatim>\<open>session\<close>: a client holding the token \<^verbatim>\<open>S1\<close> that is
  given \<^verbatim>\<open>extra={'session': 'X'}\<close> sends \<^verbatim>\<open>S1\<close>.
\<close>

theorem request_extra_session_counterexample:
  "map_of [(''session'', JStr ''X'')] ''session'' = Some (JStr ''X'')
   \<and> wire_field (last (posted (snd (request (scripted [login_ok_reply]) (camera\<lparr>session_id := JStr ''S1''\<rparr>)
         ''magicBox.getSerialNo'' JNull JNull (Some [(''session'', JStr ''X'')]) None True)))) ''session''
       = Some (JStr ''S1'')
   \<and> JStr ''S1'' \<noteq> JStr ''X''"
  by (simp add: last_posted_request wire_field_sent request_data_def Let_def
                map_of_dict_set map_of_dict_update camera_simps)

text \<open>
  C9 (as amended). When \<^verbatim>\<open>extra\<close> has no \<^verbatim>\<open>object\<close> key, the envelope has the field
  \<^verbatim>\<open>object\<close> exactly when \<^verbatim>\<open>object_id\<close> is truthy, and then with that value; an
  \<^verbatim>\<open>object_id\<close> of 0 (or any other falsy value) is left out.
\<close>

theorem request_object_field:
  assumes "\<not> has_key extra ''object''"
  shows "wire_field (last (posted (snd (request tr c m p oid extra u vr)))) ''object''
           = (if truthy oid then Some oid else None)"
  using assms
  by (cases extra)
     (auto simp: last_posted_request wire_field_sent request_data_def Let_def has_key_def
                 map_of_dict_set map_of_dict_update_other)

theorem request_object_field_witness:
  "\<not> has_key None ''object''
   \<and> wire_field (last (posted (snd (request (scripted [login_ok_reply]) camera ''magicBox.getSerialNo'' JNull
          (JInt 0) None None True)))) ''object'' = None
   \<and> wire_field (last (posted (snd (request (scripted [login_ok_reply]) camera ''magicBox.getSerialNo'' JNull
          (JInt 7) None None True)))) ''object'' = Some (JInt 7)"
proof -
  have h: "\<not> has_key None ''object''" by (simp add: has_key_def)
  show ?thesis
    using h request_object_field [OF h, of "scripted [login_ok_reply]" camera "''magicBox.getSerialNo''" JNull "JInt 0" None True]
      request_object_field [OF h, of "scripted [login_ok_reply]" camera "''magicBox.getSerialNo''" JNull "JInt 7" None True]
    by simp
qed

text \<open>
  C9 as stated fails when \<^verbatim>\<open>extra\<close> brings the key: with no \<^verbatim>\<open>object_id\<close> and
  \<^verbatim>\<open>extra={'object': 5}\<close> the envelope has the field \<^verbatim>\<open>object\<close>.
\<close>

theorem request_object_field_counterexample:
  "\<not> truthy JNull
   \<and> wire_field (last (posted (snd (request (scripted [login_ok_reply]) camera ''magicBox.getSerialNo'' JNull
          JNull (Some [(''object'', JInt 5)]) None True)))) ''object'' = Some (JInt 5)"
  by (simp add: last_posted_request wire_field_sent request_data_def Let_def
                map_of_dict_set map_of_dict_update camera_simps)

section \<open>Properties of \<^verbatim>\<open>logout\<close>\<close>

text \<open>
  C7 (as amended). Unless the call is ended by an exception that does not derive from
  \<^verbatim>\<open>Exception\<close>, \<^verbatim>\<open>logout\<close> does not raise: it returns a boolean, which is \<^verbatim>\<open>True\<close>
  exactly when the reply to its request decodes to an object whose \<^verbatim>\<open>result\<close> is the
  boolean \<^verbatim>\<open>true\<close>. A transport failure, a body that is not JSON, a \<^verbatim>\<open>result\<close> of
  \<^verbatim>\<open>false\<close> and a response that is not an object all give \<^verbatim>\<open>False\<close>.
\<close>

theorem logout_returns_bool:
  assumes "\<not> raises_base_exception (reply_at tr (snd (logout tr c)) (length (posted c)))"
  shows "fst (logout tr c)
     = Inr (result_of (reply_at tr (snd (logout tr c)) (length (posted c))) = Some (JBool True))"
proof -
  let ?w = "sent (base c) (rpc_id c + 1) (session_id c) ''global.logout'' JNull JNull None None"
  let ?r = "tr (posted c @ [?w])"
  have snd_eq: "posted (snd (logout tr c)) = posted c @ [?w]"
    by (simp add: logout_def request_eq split: sum.split)
  have at: "reply_at tr (snd (logout tr c)) (length (posted c)) = ?r"
    by (simp add: reply_at_def snd_eq)
  from assms have "\<not> raises_base_exception ?r"
    by (simp add: at)
  then show ?thesis
    unfolding at
    by (cases ?r rule: result_of.cases)
       (auto simp: logout_def request_eq outcome_def is_True_def is_False_def
             split: sum.split option.split)
qed

theorem logout_returns_bool_witness:
  "\<not> raises_base_exception
        (reply_at (scripted []) (snd (logout (scripted []) camera)) (length (posted camera)))
   \<and> fst (logout (scripted []) camera) = Inr False
   \<and> \<not> raises_base_exception
        (reply_at (scripted [login_ok_reply]) (snd (logout (scripted [login_ok_reply]) camera))
           (length (posted camera)))
   \<and> fst (logout (scripted [login_ok_reply]) camera) = Inr True"
proof -
  have h1: "\<not> raises_base_exception
        (reply_at (scripted []) (snd (logout (scripted []) camera)) (length (posted camera)))"
    by (simp add: logout_def request_eq reply_at_def scripted_def camera_simps outcome_def)
  have h2: "\<not> raises_base_exception
        (reply_at (scripted [login_ok_reply]) (snd (logout (scripted [login_ok_reply]) camera))
           (length (posted camera)))"
    by (simp add: logout_def request_eq reply_at_def scripted_def camera_simps outcome_def
                  login_ok_reply_def is_False_def is_True_def)
  show ?thesis
    using h1 h2 logout_returns_bool [OF h1] logout_returns_bool [OF h2]
    by (simp add: logout_def request_eq reply_at_def scripted_def camera_simps login_ok_reply_def
                  outcome_def is_False_def is_True_def)
qed

text \<open>
  C7 as stated fails for an exception that does not derive from \<^verbatim>\<open>Exception\<close>: when the
  task is cancelled while the request is awaited, \<^verbatim>\<open>asyncio.CancelledError\<close> passes
  \<^verbatim>\<open>except Exception\<close> and leaves \<^verbatim>\<open>logout\<close>.
\<close>

theorem logout_cancelled_counterexample:
  "fst (logout (scripted [Failure CancelledError]) camera) = Inl CancelledError"
  by (simp add: logout_def request_eq scripted_def camera_simps outcome_def)

section \<open>The course of \<^verbatim>\<open>login\<close>\<close>

lemma challenge_ofE:
  assumes "challenge_of reply = Some (s, realm, random)"
  obtains status r p where "reply = Response status (Document r)"
    "py_item r ''session'' = Inr s" "py_item r ''params'' = Inr p"
    "py_item p ''realm'' = Inr realm" "py_item p ''random'' = Inr random"
  using assms
  by (cases reply rule: challenge_of.cases) (auto split: sum.splits)

lemma result_of_cases:
  obtains (none) e where "result_of r = None" "outcome r True = Inl e"
  | (some) st kvs res where "r = Response st (Document (JObj kvs))" "result_of r = Some res"
      "py_get (JObj kvs) ''result'' = Inr res"
      "outcome r True = (if is_False res
                         then Inl (ConnectionError (''API call failed: '' @ py_str (JObj kvs)))
                         else Inr (JObj kvs))"
  by (cases r rule: result_of.cases) (auto simp: outcome_def)

lemma login_after_challenge:
  assumes "challenge_of (tr (posted c @ [challenge_post c])) = Some (s, realm, random)"
  shows "login tr c =
     (let c2 = after_challenge c s realm random in
      case outcome (tr (posted c2)) True of
        Inl e \<Rightarrow> (Inl e, c2)
      | Inr response \<Rightarrow>
          (case py_get response ''result'' of
             Inl e \<Rightarrow> (Inl e, c2)
           | Inr res \<Rightarrow>
               if eq_True res then
                 (case current_time tr (c2\<lparr>logged_in := True\<rparr>) of
                    (Inl e, c') \<Rightarrow> (Inl e, c')
                  | (Inr t, c') \<Rightarrow> (Inr response, c'))
               else (Inr (JBool False), c2)))"
proof -
  from assms obtain status r p where r: "tr (posted c @ [challenge_post c]) = Response status (Document r)"
    "py_item r ''session'' = Inr s" "py_item r ''params'' = Inr p"
    "py_item p ''realm'' = Inr realm" "py_item p ''random'' = Inr random"
    by (rule challenge_ofE)
  have o1: "outcome (tr (posted c @ [challenge_post c])) False = Inr r"
    by (simp add: outcome_def r)
  show ?thesis
    using r o1
    by (cases c)
       (simp add: login_def request_eq Let_def challenge_post_def hash_post_def
                  after_challenge_def split: sum.split prod.split)
qed

lemma login_challenge_failed:
  assumes "challenge_of (tr (posted c @ [challenge_post c])) = None"
  shows "\<exists>e s. login tr c = (Inl e, challenged c s)"
proof (cases "tr (posted c @ [challenge_post c])")
  case (Failure x)
  then have "login tr c = (Inl x, challenged c JNull)"
    by (cases c) (simp add: login_def request_eq Let_def challenge_post_def outcome_def challenged_def)
  then show ?thesis by blast
next
  case (Response status body)
  show ?thesis
  proof (cases body)
    case (Garbled t)
    with Response have "login tr c = (Inl (ValueError ''Failed to decode JSON response''), challenged c JNull)"
      by (cases c) (simp add: login_def request_eq Let_def challenge_post_def outcome_def challenged_def)
    then show ?thesis by blast
  next
    case (Unparsed t x)
    with Response have "login tr c = (Inl x, challenged c JNull)"
      by (cases c) (simp add: login_def request_eq Let_def challenge_post_def outcome_def challenged_def)
    then show ?thesis by blast
  next
    case (Document r)
    note r = Response [unfolded Document]
    show ?thesis
    proof (cases "py_item r ''session''")
      case (Inl e)
      with r have "login tr c = (Inl e, challenged c JNull)"
        by (cases c) (simp add: login_def request_eq Let_def challenge_post_def outcome_def challenged_def)
      then show ?thesis by blast
    next
      case s: (Inr s)
      show ?thesis
      proof (cases "py_item r ''params''")
        case (Inl e)
        with r s have "login tr c = (Inl e, challenged c s)"
          by (cases c) (simp add: login_def request_eq Let_def challenge_post_def outcome_def challenged_def)
        then show ?thesis by blast
      next
        case p: (Inr p)
        show ?thesis
        proof (cases "py_item p ''realm''")
          case (Inl e)
          with r s p have "login tr c = (Inl e, challenged c s)"
            by (cases c) (simp add: login_def request_eq Let_def challenge_post_def outcome_def challenged_def)
          then show ?thesis by blast
        next
          case realm: (Inr realm)
          show ?thesis
          proof (cases "py_item p ''random''")
            case (Inl e)
            with r s p realm have "login tr c = (Inl e, challenged c s)"
              by (cases c) (simp add: login_def request_eq Let_def challenge_post_def outcome_def challenged_def)
            then show ?thesis by blast
          next
            case (Inr random)
            with r s p realm assms show ?thesis by simp
          qed
        qed
      qed
    qed
  qed
qed

lemma current_time_eq:
  "current_time tr c =
     ((case outcome (tr (posted c @ [sent (base c) (rpc_id c + 1) (session_id c)
                                       ''global.getCurrentTime'' JNull JNull None None])) True of
         Inl e \<Rightarrow> Inl e
       | Inr response \<Rightarrow>
           (case py_item response ''params'' of Inl e \<Rightarrow> Inl e | Inr p \<Rightarrow> py_item p ''time'')),
      c\<lparr>rpc_id := rpc_id c + 1,
        posted := posted c @ [sent (base c) (rpc_id c + 1) (session_id c)
                                ''global.getCurrentTime'' JNull JNull None None]\<rparr>)"
  by (simp add: current_time_def request_eq split: sum.split)

lemma time_result_has_params_time:
  assumes "(case outcome r True of
              Inl e \<Rightarrow> Inl e
            | Inr response \<Rightarrow>
                (case py_item response ''params'' of Inl e \<Rightarrow> Inl e | Inr p \<Rightarrow> py_item p ''time''))
           = Inr t"
  shows "has_params_time r"
  using assms
  by (cases r rule: has_params_time.cases)
     (auto simp: outcome_def split: sum.splits if_splits)

lemma current_time_after_challenge:
  "snd (current_time tr ((after_challenge c s realm random)\<lparr>logged_in := True\<rparr>))
     = after_login c s realm random"
  by (cases c) (simp add: current_time_eq after_challenge_def after_login_def time_post_def)

lemma current_time_after_challenge_ok:
  assumes "fst (current_time tr ((after_challenge c s realm random)\<lparr>logged_in := True\<rparr>)) = Inr t"
  shows "has_params_time
           (tr (posted c @ [challenge_post c, hash_post c s realm random, time_post c s]))"
proof -
  have "posted ((after_challenge c s realm random)\<lparr>logged_in := True\<rparr>)
          @ [sent (base ((after_challenge c s realm random)\<lparr>logged_in := True\<rparr>))
               (rpc_id ((after_challenge c s realm random)\<lparr>logged_in := True\<rparr>) + 1)
               (session_id ((after_challenge c s realm random)\<lparr>logged_in := True\<rparr>))
               ''global.getCurrentTime'' JNull JNull None None]
        = posted c @ [challenge_post c, hash_post c s realm random, time_post c s]"
    by (simp add: after_challenge_def time_post_def)
  with assms show ?thesis
    by (auto simp: current_time_eq intro: time_result_has_params_time)
qed

lemma login_cases [case_names challenge_failed hash_failed soft_fail time_failed success]:
  obtains
    e s where "challenge_of (tr (posted c @ [challenge_post c])) = None"
      "login tr c = (Inl e, challenged c s)"
  | s realm random e where
      "challenge_of (tr (posted c @ [challenge_post c])) = Some (s, realm, random)"
      "result_of (tr (posted c @ [challenge_post c, hash_post c s realm random])) = None
       \<or> result_of (tr (posted c @ [challenge_post c, hash_post c s realm random])) = Some (JBool False)"
      "login tr c = (Inl e, after_challenge c s realm random)"
  | s realm random res where
      "challenge_of (tr (posted c @ [challenge_post c])) = Some (s, realm, random)"
      "result_of (tr (posted c @ [challenge_post c, hash_post c s realm random])) = Some res"
      "\<not> eq_True res" "\<not> is_False res"
      "login tr c = (Inr (JBool False), after_challenge c s realm random)"
  | s realm random res e where
      "challenge_of (tr (posted c @ [challenge_post c])) = Some (s, realm, random)"
      "result_of (tr (posted c @ [challenge_post c, hash_post c s realm random])) = Some res"
      "eq_True res"
      "login tr c = (Inl e, after_login c s realm random)"
  | s realm random res st kvs where
      "challenge_of (tr (posted c @ [challenge_post c])) = Some (s, realm, random)"
      "tr (posted c @ [challenge_post c, hash_post c s realm random])
         = Response st (Document (JObj kvs))"
      "result_of (tr (posted c @ [challenge_post c, hash_post c s realm random])) = Some res"
      "eq_True res"
      "has_params_time (tr (posted c @ [challenge_post c, hash_post c s realm random, time_post c s]))"
      "login tr c = (Inr (JObj kvs), after_login c s realm random)"
proof (cases "challenge_of (tr (posted c @ [challenge_post c]))")
  case None
  with login_challenge_failed [of tr c] that(1) show ?thesis by blast
next
  case (Some x)
  obtain s realm random where x: "x = (s, realm, random)" by (cases x)
  note ch = Some [unfolded x]
  have eq: "login tr c =
     (let c2 = after_challenge c s realm random in
      case outcome (tr (posted c2)) True of
        Inl e \<Rightarrow> (Inl e, c2)
      | Inr response \<Rightarrow>
          (case py_get response ''result'' of
             Inl e \<Rightarrow> (Inl e, c2)
           | Inr res \<Rightarrow>
               if eq_True res then
                 (case current_time tr (c2\<lparr>logged_in := True\<rparr>) of
                    (Inl e, c') \<Rightarrow> (Inl e, c')
                  | (Inr t, c') \<Rightarrow> (Inr response, c'))
               else (Inr (JBool False), c2)))"
    using ch by (rule login_after_challenge)
  let ?c2 = "after_challenge c s realm random"
  have p2: "posted ?c2 = posted c @ [challenge_post c, hash_post c s realm random]"
    by (simp add: after_challenge_def)
  show ?thesis
  proof (cases "tr (posted ?c2)" rule: result_of_cases)
    case (none e)
    then have "login tr c = (Inl e, ?c2)" by (simp add: eq)
    with ch none(1) that(2) show ?thesis unfolding p2 by blast
  next
    case (some st kvs res)
    show ?thesis
    proof (cases "is_False res")
      case True
      with some have "login tr c
          = (Inl (ConnectionError (''API call failed: '' @ py_str (JObj kvs))), ?c2)"
        by (simp add: eq)
      moreover from True some(2) have "result_of (tr (posted ?c2)) = Some (JBool False)"
        by (simp add: is_False_def)
      ultimately show ?thesis using ch that(2) unfolding p2 by blast
    next
      case False
      show ?thesis
      proof (cases "eq_True res")
        case nt: False
        with False some have "login tr c = (Inr (JBool False), ?c2)"
          by (simp add: eq)
        with ch some(2) nt False that(3) show ?thesis unfolding p2 by blast
      next
        case t: True
        let ?ct = "current_time tr (?c2\<lparr>logged_in := True\<rparr>)"
        have l: "login tr c = (case ?ct of (Inl e, c') \<Rightarrow> (Inl e, c') | (Inr t, c') \<Rightarrow> (Inr (JObj kvs), c'))"
          using some False t by (simp add: eq)
        have sn: "snd ?ct = after_login c s realm random"
          by (rule current_time_after_challenge)
        show ?thesis
        proof (cases "fst ?ct")
          case (Inl e)
          with l sn have "login tr c = (Inl e, after_login c s realm random)"
            by (cases ?ct) simp
          with ch some(2) t that(4) show ?thesis unfolding p2 by blast
        next
          case (Inr tm)
          with l sn have "login tr c = (Inr (JObj kvs), after_login c s realm random)"
            by (cases ?ct) simp
          moreover note current_time_after_challenge_ok [OF Inr]
          ultimately show ?thesis using ch some(1,2) t that(5) unfolding p2 by blast
        qed
      qed
    qed
  qed
qed


lemma posted_challenged: "posted (challenged c s) = posted c @ [challenge_post c]"
  by (simp add: challenged_def)

lemma posted_after_challenge:
  "posted (after_challenge c s realm random) = posted c @ [challenge_post c, hash_post c s realm random]"
  by (simp add: after_challenge_def)

lemma posted_after_login:
  "posted (after_login c s realm random)
     = posted c @ [challenge_post c, hash_post c s realm random, time_post c s]"
  by (simp add: after_login_def)

lemma reply_at_login_first:
  "reply_at tr (snd (login tr c)) (length (posted c)) = tr (posted c @ [challenge_post c])"
  by (cases tr c rule: login_cases)
     (simp_all add: reply_at_def posted_challenged posted_after_challenge posted_after_login)

lemma reply_at_login_second:
  assumes "challenge_of (tr (posted c @ [challenge_post c])) = Some (s, realm, random)"
  shows "reply_at tr (snd (login tr c)) (Suc (length (posted c)))
           = tr (posted c @ [challenge_post c, hash_post c s realm random])"
  using assms
  by (cases tr c rule: login_cases)
     (simp_all add: reply_at_def posted_challenged posted_after_challenge posted_after_login)



section \<open>Properties of \<^verbatim>\<open>login\<close>\<close>



lemma scripted_nth:
  "length log = Suc n \<Longrightarrow> n < length replies \<Longrightarrow> scripted replies log = replies ! n"
  by (auto simp: scripted_def)

lemma camera_challenge:
  "challenge_of (reply_at (scripted (challenge_reply # rs)) (snd (login (scripted (challenge_reply # rs)) camera))
      (length (posted camera))) = Some (JStr ''S1'', JStr ''ABCDEF'', JStr ''123456'')"
  unfolding reply_at_login_first
  by (simp add: scripted_nth camera_simps challenge_reply_def)


lemma wire_id_sent:
  "\<not> has_key e ''id'' \<Longrightarrow> wire_field (sent b n s m p oid e u) ''id'' = Some (JInt n)"
  by (cases e)
     (auto simp: wire_field_sent request_data_def Let_def has_key_def map_of_dict_set
                 map_of_dict_update_other)

lemma wire_method_sent:
  "\<not> has_key e ''method'' \<Longrightarrow> wire_field (sent b n s m p oid e u) ''method'' = Some (JStr m)"
  by (cases e)
     (auto simp: wire_field_sent request_data_def Let_def has_key_def map_of_dict_set
                 map_of_dict_update_other)

lemma has_key_None [simp]: "\<not> has_key None k"
  by (simp add: has_key_def)

lemma login_post_ids:
  "wire_field (challenge_post c) ''id'' = Some (JInt 1)"
  "wire_field (hash_post c s realm random) ''id'' = Some (JInt 2)"
  "wire_field (time_post c s) ''id'' = Some (JInt 3)"
  by (simp_all add: challenge_post_def hash_post_def time_post_def wire_id_sent)

lemma login_post_methods:
  "method_of (challenge_post c) = ''global.login''"
  "method_of (hash_post c s realm random) = ''global.login''"
  "method_of (time_post c s) = ''global.getCurrentTime''"
  by (simp_all add: challenge_post_def hash_post_def time_post_def method_of_def wire_method_sent)

lemma reply_at_login_third:
  assumes "challenge_of (tr (posted c @ [challenge_post c])) = Some (s, realm, random)"
    and "result_of (tr (posted c @ [challenge_post c, hash_post c s realm random])) = Some res"
    and "eq_True res"
  shows "reply_at tr (snd (login tr c)) (Suc (Suc (length (posted c))))
           = tr (posted c @ [challenge_post c, hash_post c s realm random, time_post c s])"
  using assms
  by (cases tr c rule: login_cases)
     (auto simp: reply_at_def posted_after_login)

text \<open>
  The \<^verbatim>\<open>else\<close> branch of \<^verbatim>\<open>login\<close> (\<^verbatim>\<open>"Login failed"\<close>, \<^verbatim>\<open>return False\<close>) is reached when
  the challenge has been answered and the hash-phase response is an object whose
  \<^verbatim>\<open>result\<close> is absent, null or any other value that is neither equal to \<^verbatim>\<open>True\<close> nor the
  boolean \<^verbatim>\<open>false\<close>: then \<^verbatim>\<open>login\<close> returns \<^verbatim>\<open>False\<close> without raising, after two POSTs,
  and leaves \<^verbatim>\<open>logged_in\<close> as it was.
\<close>

lemma login_soft_failure:
  assumes "challenge_of (reply_at tr (snd (login tr c)) (length (posted c))) = Some (s, realm, random)"
    and "result_of (reply_at tr (snd (login tr c)) (Suc (length (posted c)))) = Some res"
    and "\<not> eq_True res" and "\<not> is_False res"
  shows "fst (login tr c) = Inr (JBool False)
         \<and> logged_in (snd (login tr c)) = logged_in c
         \<and> length (new_posts c (snd (login tr c))) = 2"
proof -
  from assms(1) have ch: "challenge_of (tr (posted c @ [challenge_post c])) = Some (s, realm, random)"
    by (simp add: reply_at_login_first)
  from assms(2) have r2: "result_of (tr (posted c @ [challenge_post c, hash_post c s realm random])) = Some res"
    using ch by (simp add: reply_at_login_second [of tr c s realm random])
  from ch r2 assms(3,4) show ?thesis
    by (cases tr c rule: login_cases)
       (auto simp: after_challenge_def new_posts_def is_False_def)
qed

text \<open>
  C10. When the challenge has been answered and the hash-phase response has \<^verbatim>\<open>result\<close>
  \<^verbatim>\<open>true\<close>, \<^verbatim>\<open>login\<close> makes exactly three POSTs, with ids 1, 2 and 3, the third being
  \<^verbatim>\<open>global.getCurrentTime\<close>; \<^verbatim>\<open>logged_in\<close> is true afterwards; and if the reply to the
  third POST has no \<^verbatim>\<open>params.time\<close>, \<^verbatim>\<open>login\<close> raises all the same.
\<close>

theorem login_success_current_time:
  assumes "challenge_of (reply_at tr (snd (login tr c)) (length (posted c))) = Some (s, realm, random)"
    and "result_of (reply_at tr (snd (login tr c)) (Suc (length (posted c)))) = Some (JBool True)"
  shows "map (\<lambda>w. wire_field w ''id'') (new_posts c (snd (login tr c)))
           = [Some (JInt 1), Some (JInt 2), Some (JInt 3)]
         \<and> methods (new_posts c (snd (login tr c)))
           = [''global.login'', ''global.login'', ''global.getCurrentTime'']
         \<and> logged_in (snd (login tr c))
         \<and> (\<not> has_params_time (reply_at tr (snd (login tr c)) (Suc (Suc (length (posted c)))))
              \<longrightarrow> isl (fst (login tr c)))"
proof -
  from assms(1) have ch: "challenge_of (tr (posted c @ [challenge_post c])) = Some (s, realm, random)"
    by (simp add: reply_at_login_first)
  from assms(2) have r2: "result_of (tr (posted c @ [challenge_post c, hash_post c s realm random]))
      = Some (JBool True)"
    using ch by (simp add: reply_at_login_second [of tr c s realm random])
  have r3: "reply_at tr (snd (login tr c)) (Suc (Suc (length (posted c))))
           = tr (posted c @ [challenge_post c, hash_post c s realm random, time_post c s])"
    using ch r2 by (simp add: reply_at_login_third [of tr c s realm random "JBool True"])
  from ch r2 show ?thesis
    unfolding r3
    by (cases tr c rule: login_cases)
       (auto simp: after_login_def new_posts_def methods_def login_post_ids login_post_methods)
qed


lemma camera_scripted:
  "scripted (a # rs) (posted camera @ [w1]) = a"
  "scripted (a # b # rs) (posted camera @ [w1, w2]) = b"
  "scripted (a # b # d # rs) (posted camera @ [w1, w2, w3]) = d"
  by (simp_all add: scripted_def camera_simps)

lemma camera_challenge_of:
  "challenge_of (scripted (challenge_reply # rs) (posted camera @ [challenge_post camera]))
     = Some (JStr ''S1'', JStr ''ABCDEF'', JStr ''123456'')"
  by (simp add: camera_scripted challenge_reply_def)

lemma camera_second_reply:
  "reply_at (scripted (challenge_reply # b # rs)) (snd (login (scripted (challenge_reply # b # rs)) camera))
      (Suc (length (posted camera))) = b"
  using camera_challenge_of [of "b # rs"]
  by (simp add: reply_at_login_second [of _ camera "JStr ''S1''" "JStr ''ABCDEF''" "JStr ''123456''"]
                camera_scripted)

lemma login_soft_failure_example:
  "challenge_of (reply_at (scripted [challenge_reply, Response 200 (Document (JObj [(''error'', JStr ''denied'')]))])
      (snd (login (scripted [challenge_reply, Response 200 (Document (JObj [(''error'', JStr ''denied'')]))]) camera))
      (length (posted camera))) = Some (JStr ''S1'', JStr ''ABCDEF'', JStr ''123456'')
   \<and> result_of (reply_at (scripted [challenge_reply, Response 200 (Document (JObj [(''error'', JStr ''denied'')]))])
      (snd (login (scripted [challenge_reply, Response 200 (Document (JObj [(''error'', JStr ''denied'')]))]) camera))
      (Suc (length (posted camera)))) = Some JNull
   \<and> \<not> eq_True JNull \<and> \<not> is_False JNull
   \<and> fst (login (scripted [challenge_reply, Response 200 (Document (JObj [(''error'', JStr ''denied'')]))]) camera)
       = Inr (JBool False)
   \<and> logged_in (snd (login (scripted [challenge_reply, Response 200 (Document (JObj [(''error'', JStr ''denied'')]))]) camera))
       = logged_in camera"
proof -
  let ?tr = "scripted [challenge_reply, Response 200 (Document (JObj [(''error'', JStr ''denied'')]))]"
  note h1 = camera_challenge [of "[Response 200 (Document (JObj [(''error'', JStr ''denied'')]))]"]
  have h2: "result_of (reply_at ?tr (snd (login ?tr camera)) (Suc (length (posted camera)))) = Some JNull"
    by (simp only: camera_second_reply) simp
  have h3: "\<not> eq_True JNull" by simp
  have h4: "\<not> is_False JNull" by (simp add: is_False_def)
  show ?thesis
    using h1 h2 h3 h4 login_soft_failure [OF h1 h2 h3 h4] by simp
qed

text \<open>
  C3. A hash-phase response whose \<^verbatim>\<open>result\<close> is not exactly \<^verbatim>\<open>true\<close> should make
  \<^verbatim>\<open>login\<close> return \<^verbatim>\<open>False\<close> without raising. The code does not do so for a \<^verbatim>\<open>result\<close>
  of \<^verbatim>\<open>false\<close>, the answer of a device that rejects the credentials: the hash phase
  calls \<^verbatim>\<open>request\<close> with the default \<^verbatim>\<open>verify_result=True\<close>, so that \<^verbatim>\<open>request\<close> raises
  its \<^verbatim>\<open>ConnectionError\<close> and the \<^verbatim>\<open>else\<close> branch of \<^verbatim>\<open>login\<close> is not reached. The
  theorem is what \<^verbatim>\<open>login\<close> does on every such input: it raises (and leaves
  \<^verbatim>\<open>logged_in\<close> as it was).
\<close>

theorem login_result_false_raises:
  assumes "challenge_of (reply_at tr (snd (login tr c)) (length (posted c))) = Some (s, realm, random)"
    and "reply_at tr (snd (login tr c)) (Suc (length (posted c)))
           = Response status (Document (JObj kvs))"
    and "map_of kvs ''result'' = Some (JBool False)"
  shows "fst (login tr c) = Inl (ConnectionError (''API call failed: '' @ py_str (JObj kvs)))
         \<and> logged_in (snd (login tr c)) = logged_in c"
proof -
  from assms(1) have ch: "challenge_of (tr (posted c @ [challenge_post c])) = Some (s, realm, random)"
    by (simp add: reply_at_login_first)
  from assms(2) have r2: "tr (posted c @ [challenge_post c, hash_post c s realm random])
      = Response status (Document (JObj kvs))"
    using ch by (simp add: reply_at_login_second [of tr c s realm random])
  have "login tr c = (Inl (ConnectionError (''API call failed: '' @ py_str (JObj kvs))),
                      after_challenge c s realm random)"
    using ch r2 assms(3)
    by (simp add: login_after_challenge [of tr c s realm random] posted_after_challenge
                  outcome_def is_False_def)
  then show ?thesis by (simp add: after_challenge_def)
qed

theorem login_result_false_raises_witness:
  "challenge_of (reply_at (scripted [challenge_reply, Response 200 (Document (JObj [(''result'', JBool False)]))])
      (snd (login (scripted [challenge_reply, Response 200 (Document (JObj [(''result'', JBool False)]))]) camera))
      (length (posted camera))) = Some (JStr ''S1'', JStr ''ABCDEF'', JStr ''123456'')
   \<and> reply_at (scripted [challenge_reply, Response 200 (Document (JObj [(''result'', JBool False)]))])
      (snd (login (scripted [challenge_reply, Response 200 (Document (JObj [(''result'', JBool False)]))]) camera))
      (Suc (length (posted camera))) = Response 200 (Document (JObj [(''result'', JBool False)]))
   \<and> map_of [(''result'', JBool False)] ''result'' = Some (JBool False)
   \<and> fst (login (scripted [challenge_reply, Response 200 (Document (JObj [(''result'', JBool False)]))]) camera)
       = Inl (ConnectionError (''API call failed: '' @ py_str (JObj [(''result'', JBool False)])))"
proof -
  let ?tr = "scripted [challenge_reply, Response 200 (Document (JObj [(''result'', JBool False)]))]"
  note h1 = camera_challenge [of "[Response 200 (Document (JObj [(''result'', JBool False)]))]"]
  have h2: "reply_at ?tr (snd (login ?tr camera)) (Suc (length (posted camera)))
      = Response 200 (Document (JObj [(''result'', JBool False)]))"
    by (simp only: camera_second_reply)
  have h3: "map_of [(''result'', JBool False)] ''result'' = Some (JBool False)"
    by simp
  show ?thesis
    using h1 h2 h3 login_result_false_raises [OF h1 h2 h3] by simp
qed

text \<open>
  The test of \<^verbatim>\<open>login\<close> is \<^verbatim>\<open>== True\<close>, where \<^verbatim>\<open>logout\<close> has \<^verbatim>\<open>is True\<close>: a hash-phase
  \<^verbatim>\<open>result\<close> of the number 1 is not the boolean \<^verbatim>\<open>true\<close>, and it logs the client in.
\<close>

lemma login_result_one_logs_in:
  "fst (login (scripted [challenge_reply, Response 200 (Document (JObj [(''result'', JInt 1)])),
                        time_reply]) camera)
     = Inr (JObj [(''result'', JInt 1)])
   \<and> logged_in (snd (login (scripted [challenge_reply,
                        Response 200 (Document (JObj [(''result'', JInt 1)])), time_reply]) camera))"
proof -
  let ?one = "Response 200 (Document (JObj [(''result'', JInt 1)]))"
  let ?tr = "scripted [challenge_reply, ?one, time_reply]"
  let ?c2 = "after_challenge camera (JStr ''S1'') (JStr ''ABCDEF'') (JStr ''123456'')"
  have "fst (current_time ?tr (?c2\<lparr>logged_in := True\<rparr>)) = Inr (JStr ''2024-05-01 12:00:00'')"
    by (simp add: current_time_eq posted_after_challenge camera_scripted outcome_def
                  time_reply_def is_False_def)
  then have ct: "current_time ?tr (?c2\<lparr>logged_in := True\<rparr>)
      = (Inr (JStr ''2024-05-01 12:00:00''),
         after_login camera (JStr ''S1'') (JStr ''ABCDEF'') (JStr ''123456''))"
    by (simp add: prod_eq_iff current_time_after_challenge)
  have o2: "outcome ?one True = Inr (JObj [(''result'', JInt 1)])"
    by (simp add: outcome_def is_False_def)
  have "login ?tr camera
      = (Inr (JObj [(''result'', JInt 1)]),
         after_login camera (JStr ''S1'') (JStr ''ABCDEF'') (JStr ''123456''))"
    using camera_challenge_of [of "[?one, time_reply]"]
    by (simp add: login_after_challenge [of _ camera "JStr ''S1''" "JStr ''ABCDEF''" "JStr ''123456''"]
                  posted_after_challenge camera_scripted o2 ct)
  then show ?thesis by (simp add: after_login_def)
qed

theorem login_success_current_time_witness:
  "challenge_of (reply_at (scripted [challenge_reply, Response 200 (Document (JObj [(''result'', JBool True)])),
                                     Response 200 (Document (JObj [(''result'', JBool True)]))])
      (snd (login (scripted [challenge_reply, Response 200 (Document (JObj [(''result'', JBool True)])),
                             Response 200 (Document (JObj [(''result'', JBool True)]))]) camera))
      (length (posted camera))) = Some (JStr ''S1'', JStr ''ABCDEF'', JStr ''123456'')
   \<and> result_of (reply_at (scripted [challenge_reply, Response 200 (Document (JObj [(''result'', JBool True)])),
                                     Response 200 (Document (JObj [(''result'', JBool True)]))])
      (snd (login (scripted [challenge_reply, Response 200 (Document (JObj [(''result'', JBool True)])),
                             Response 200 (Document (JObj [(''result'', JBool True)]))]) camera))
      (Suc (length (posted camera)))) = Some (JBool True)
   \<and> \<not> has_params_time (reply_at (scripted [challenge_reply, Response 200 (Document (JObj [(''result'', JBool True)])),
                                     Response 200 (Document (JObj [(''result'', JBool True)]))])
      (snd (login (scripted [challenge_reply, Response 200 (Document (JObj [(''result'', JBool True)])),
                             Response 200 (Document (JObj [(''result'', JBool True)]))]) camera))
      (Suc (Suc (length (posted camera)))))
   \<and> methods (new_posts camera (snd (login (scripted [challenge_reply, Response 200 (Document (JObj [(''result'', JBool True)])),
                             Response 200 (Document (JObj [(''result'', JBool True)]))]) camera)))
       = [''global.login'', ''global.login'', ''global.getCurrentTime'']
   \<and> logged_in (snd (login (scripted [challenge_reply, Response 200 (Document (JObj [(''result'', JBool True)])),
                             Response 200 (Document (JObj [(''result'', JBool True)]))]) camera))
   \<and> isl (fst (login (scripted [challenge_reply, Response 200 (Document (JObj [(''result'', JBool True)])),
                             Response 200 (Document (JObj [(''result'', JBool True)]))]) camera))"
proof -
  let ?ok = "Response 200 (Document (JObj [(''result'', JBool True)]))"
  let ?tr = "scripted [challenge_reply, ?ok, ?ok]"
  note h1 = camera_challenge [of "[?ok, ?ok]"]
  have h2: "result_of (reply_at ?tr (snd (login ?tr camera)) (Suc (length (posted camera))))
      = Some (JBool True)"
    by (simp only: camera_second_reply) simp
  have r3: "reply_at ?tr (snd (login ?tr camera)) (Suc (Suc (length (posted camera)))) = ?ok"
    using camera_challenge_of [of "[?ok, ?ok]"]
    by (simp add: reply_at_login_third [of _ camera "JStr ''S1''" "JStr ''ABCDEF''" "JStr ''123456''" "JBool True"]
                  camera_scripted)
  have h3: "\<not> has_params_time (reply_at ?tr (snd (login ?tr camera)) (Suc (Suc (length (posted camera)))))"
    by (simp only: r3) simp
  show ?thesis
    using h1 h2 h3 login_success_current_time [OF h1 h2] by simp
qed


section \<open>The coaxial control operations\<close>



lemma login_trace:
  "\<exists>ws. posted (snd (login tr c)) = posted c @ challenge_post c # ws
        \<and> (case fst (login tr c) of
              Inl e \<Rightarrow> methods (challenge_post c # ws) \<in> set ([[''global.login'']] @ login_traces)
            | Inr l \<Rightarrow> methods (challenge_post c # ws) \<in> set login_traces)"
  by (cases tr c rule: login_cases)
     (simp_all add: posted_challenged posted_after_challenge posted_after_login methods_def
                    login_post_methods login_traces_def)










section \<open>The numbering of the requests\<close>

lemma id_chain_append:
  "id_chain u n (xs @ ys) = (id_chain u n xs \<and> id_chain u (chain_end u n xs) ys)"
  by (induction xs arbitrary: n) auto

lemma chain_end_append:
  "chain_end u n (xs @ ys) = chain_end u (chain_end u n xs) ys"
  by (induction xs arbitrary: n) auto

lemma followsI:
  assumes "username c' = username c" and "posted c' = posted c @ ws"
    and "id_chain (username c) (rpc_id c) ws" and "chain_end (username c) (rpc_id c) ws = rpc_id c'"
  shows "follows c c'"
  using assms by (simp add: follows_def new_posts_def)

lemma followsE:
  assumes "follows c c'"
  obtains ws where "username c' = username c" "posted c' = posted c @ ws"
    "id_chain (username c) (rpc_id c) ws" "chain_end (username c) (rpc_id c) ws = rpc_id c'"
proof -
  from assms have t: "take (length (posted c)) (posted c') = posted c"
    by (simp add: follows_def)
  have "posted c' = posted c @ new_posts c c'"
    unfolding new_posts_def
    using append_take_drop_id [of "length (posted c)" "posted c'"] t by simp
  moreover from assms have "username c' = username c"
    "id_chain (username c) (rpc_id c) (new_posts c c')"
    "chain_end (username c) (rpc_id c) (new_posts c c') = rpc_id c'"
    by (simp_all add: follows_def)
  ultimately show ?thesis by (blast intro: that)
qed

lemma follows_refl: "follows c c"
  by (rule followsI [where ws = "[]"]) simp_all

lemma follows_trans:
  assumes "follows a b" and "follows b c"
  shows "follows a c"
proof -
  from assms(1) obtain xs where xs: "username b = username a" "posted b = posted a @ xs"
    "id_chain (username a) (rpc_id a) xs" "chain_end (username a) (rpc_id a) xs = rpc_id b"
    by (rule followsE)
  from assms(2) obtain ys where ys: "username c = username b" "posted c = posted b @ ys"
    "id_chain (username b) (rpc_id b) ys" "chain_end (username b) (rpc_id b) ys = rpc_id c"
    by (rule followsE)
  show ?thesis
    by (rule followsI [where ws = "xs @ ys"])
       (use xs ys in \<open>simp_all add: id_chain_append chain_end_append\<close>)
qed

lemma request_follows:
  assumes "\<not> has_key e ''id''"
  shows "follows c (snd (request tr c m p oid e u vr))"
proof (rule followsI [where ws = "[sent (base c) (rpc_id c + 1) (session_id c) m p oid e u]"])
  let ?w = "sent (base c) (rpc_id c + 1) (session_id c) m p oid e u"
  have i: "wire_field ?w ''id'' = Some (JInt (rpc_id c + 1))"
    using assms by (rule wire_id_sent)
  show "id_chain (username c) (rpc_id c) [?w]"
    by (simp add: i)
  show "chain_end (username c) (rpc_id c) [?w] = rpc_id (snd (request tr c m p oid e u vr))"
    using i by (auto simp: request_eq is_challenge_def)
qed (simp_all add: request_eq)

lemma is_challenge_login_posts:
  "is_challenge (username c) (challenge_post c)"
  "\<not> is_challenge (username c) (hash_post c s realm random)"
  "\<not> is_challenge (username c) (time_post c s)"
  by (simp_all add: is_challenge_def login_post_ids challenge_post_def hash_post_def time_post_def
                    wire_field_sent request_data_def Let_def map_of_dict_set)

lemma login_follows: "follows c (snd (login tr c))"
proof (cases tr c rule: login_cases)
  case (challenge_failed e s)
  show ?thesis
    by (rule followsI [where ws = "[challenge_post c]"])
       (simp_all add: challenge_failed challenged_def is_challenge_login_posts)
next
  case (hash_failed s realm random e)
  show ?thesis
    by (rule followsI [where ws = "[challenge_post c, hash_post c s realm random]"])
       (simp_all add: hash_failed after_challenge_def is_challenge_login_posts login_post_ids)
next
  case (soft_fail s realm random res)
  show ?thesis
    by (rule followsI [where ws = "[challenge_post c, hash_post c s realm random]"])
       (simp_all add: soft_fail after_challenge_def is_challenge_login_posts login_post_ids)
next
  case (time_failed s realm random res e)
  show ?thesis
    by (rule followsI [where ws = "[challenge_post c, hash_post c s realm random, time_post c s]"])
       (simp_all add: time_failed after_login_def is_challenge_login_posts login_post_ids)
next
  case (success s realm random res st kvs)
  show ?thesis
    by (rule followsI [where ws = "[challenge_post c, hash_post c s realm random, time_post c s]"])
       (simp_all add: success after_login_def is_challenge_login_posts login_post_ids)
qed

lemma single_request_states:
  "snd (logout tr c) = snd (request tr c ''global.logout'' JNull JNull None None True)"
  "snd (current_time tr c) = snd (request tr c ''global.getCurrentTime'' JNull JNull None None True)"
  "snd (get_serial_number tr c) = snd (request tr c ''magicBox.getSerialNo'' JNull JNull None None True)"
  "snd (get_config tr c p) = snd (request tr c ''configManager.getConfig'' p JNull None None True)"
  "snd (get_device_name tr c)
     = snd (request tr c ''configManager.getConfig'' (JObj [(''name'', JStr ''General'')]) JNull None None True)"
  by (simp_all add: logout_def current_time_def get_serial_number_def get_config_def
                    get_device_name_def split: prod.split sum.split)

lemma get_coaxial_follows: "follows c (snd (get_coaxial_control_io_status tr c ch))"
proof (cases "login tr c")
  case (Pair r c1)
  then have l: "follows c c1" using login_follows [of c tr] by simp
  show ?thesis
  proof (cases r)
    case (Inl e)
    with Pair l show ?thesis by (simp add: get_coaxial_control_io_status_def)
  next
    case (Inr x)
    have eq: "snd (get_coaxial_control_io_status tr c ch)
        = snd (request tr c1 ''CoaxialControlIO.getStatus'' (JObj [(''channel'', JInt ch)])
                 JNull None None True)"
      using Pair Inr by (simp add: get_coaxial_control_io_status_def split: prod.split sum.split)
    have "follows c1 (snd (request tr c1 ''CoaxialControlIO.getStatus''
                 (JObj [(''channel'', JInt ch)]) JNull None None True))"
      by (rule request_follows) simp
    with l have "follows c (snd (request tr c1 ''CoaxialControlIO.getStatus''
                 (JObj [(''channel'', JInt ch)]) JNull None None True))"
      by (rule follows_trans)
    then show ?thesis by (simp only: eq)
  qed
qed

lemma set_coaxial_follows: "follows c (snd (set_coaxial_control_io_status tr c ch ty io tm))"
proof (cases "login tr c")
  case (Pair r c1)
  then have l: "follows c c1" using login_follows [of c tr] by simp
  show ?thesis
  proof (cases r)
    case (Inl e)
    with Pair l show ?thesis by (simp add: set_coaxial_control_io_status_def)
  next
    case (Inr x)
    obtain r2 c2 where r2: "request tr c1 ''CoaxialControlIO.control''
                  (JObj [(''channel'', JInt ch),
                         (''info'', JArr [JObj [(''Type'', JInt ty), (''IO'', JInt io),
                                               (''TriggerMode'', JInt tm)]])])
                  JNull None None True = (r2, c2)"
      by (cases "request tr c1 ''CoaxialControlIO.control''
                  (JObj [(''channel'', JInt ch),
                         (''info'', JArr [JObj [(''Type'', JInt ty), (''IO'', JInt io),
                                               (''TriggerMode'', JInt tm)]])])
                  JNull None None True")
    have "follows c1 (snd (request tr c1 ''CoaxialControlIO.control''
                  (JObj [(''channel'', JInt ch),
                         (''info'', JArr [JObj [(''Type'', JInt ty), (''IO'', JInt io),
                                               (''TriggerMode'', JInt tm)]])])
                  JNull None None True))"
      by (rule request_follows) simp
    then have "follows c1 c2" by (simp only: r2 snd_conv)
    with l have l2: "follows c c2" by (rule follows_trans)
    show ?thesis
    proof (cases r2)
      case (Inl e)
      with Pair Inr r2 l2 show ?thesis by (simp add: set_coaxial_control_io_status_def)
    next
      case i: (Inr y)
      have eq: "snd (set_coaxial_control_io_status tr c ch ty io tm)
          = snd (get_coaxial_control_io_status tr c2 ch)"
        using Pair Inr r2 i by (simp add: set_coaxial_control_io_status_def)
      from l2 get_coaxial_follows [of c2 tr ch]
      have "follows c (snd (get_coaxial_control_io_status tr c2 ch))"
        by (rule follows_trans)
      then show ?thesis by (simp only: eq)
    qed
  qed
qed

lemma perform_follows: "keeps_id call \<Longrightarrow> follows c (perform tr call c)"
  by (cases call)
     (simp_all add: request_follows login_follows get_coaxial_follows set_coaxial_follows
                    single_request_states)

lemma perform_all_follows:
  "\<forall>call \<in> set calls. keeps_id call \<Longrightarrow> follows c (perform_all tr calls c)"
  unfolding perform_all_def
proof (induction calls arbitrary: c)
  case Nil
  show ?case by (simp add: follows_refl)
next
  case (Cons a calls)
  have "follows c (perform tr a c)" using Cons.prems by (simp add: perform_follows)
  moreover have "follows (perform tr a c) (fold (perform tr) calls (perform tr a c))"
    using Cons.prems by (intro Cons.IH) simp
  ultimately have "follows c (fold (perform tr) calls (perform tr a c))"
    by (rule follows_trans)
  then show ?case by simp
qed

text \<open>
  C1 (as amended). For every sequence of operations on one client in which no call of
  \<^verbatim>\<open>request\<close> passes an \<^verbatim>\<open>id\<close> key in \<^verbatim>\<open>extra\<close>, the POSTs are numbered as \<open>id_chain\<close>
  says: the \<^verbatim>\<open>id\<close> of each POST is one more than the counter left by the POST before it
  (the client's counter, for the first), except that the challenge of a login carries
  id 1. And the first POST of every \<^verbatim>\<open>login\<close> is that challenge, with id 1, whatever the
  counter was.
\<close>

theorem request_ids_consecutive:
  assumes "\<forall>call \<in> set calls. keeps_id call"
  shows "id_chain (username c) (rpc_id c) (new_posts c (perform_all tr calls c))
         \<and> is_challenge (username c) (hd (new_posts c (snd (login tr c))))
         \<and> wire_field (hd (new_posts c (snd (login tr c)))) ''id'' = Some (JInt 1)"
proof -
  have "follows c (perform_all tr calls c)"
    using assms by (rule perform_all_follows)
  then have 1: "id_chain (username c) (rpc_id c) (new_posts c (perform_all tr calls c))"
    by (simp add: follows_def)
  obtain ws where "posted (snd (login tr c)) = posted c @ challenge_post c # ws"
    using login_trace [of tr c] by blast
  then have "hd (new_posts c (snd (login tr c))) = challenge_post c"
    by (simp add: new_posts_def)
  with 1 show ?thesis
    by (simp add: is_challenge_login_posts login_post_ids)
qed

theorem request_ids_consecutive_witness:
  "list_all keeps_id
     [GetSerialNumber, Login,
      Request ''magicBox.getSerialNo'' JNull JNull (Some [(''session'', JStr ''X'')]) None True,
      GetCoaxialControlIOStatus 1, Logout]
   \<and> id_chain (username camera) (rpc_id camera)
        (new_posts camera
          (perform_all (scripted [challenge_reply, login_ok_reply, time_reply, status_reply])
            [GetSerialNumber, Login,
             Request ''magicBox.getSerialNo'' JNull JNull (Some [(''session'', JStr ''X'')]) None True,
             GetCoaxialControlIOStatus 1, Logout]
            camera))"
proof -
  let ?calls = "[GetSerialNumber, Login,
      Request ''magicBox.getSerialNo'' JNull JNull (Some [(''session'', JStr ''X'')]) None True,
      GetCoaxialControlIOStatus 1, Logout]"
  have h: "\<forall>call \<in> set ?calls. keeps_id call"
    by (simp add: has_key_def)
  show ?thesis
    using h request_ids_consecutive [OF h, of camera
        "scripted [challenge_reply, login_ok_reply, time_reply, status_reply]"]
    by (simp add: has_key_def)
qed

text \<open>
  C1 as stated fails when \<^verbatim>\<open>extra\<close> carries an \<^verbatim>\<open>id\<close>: it replaces the counter's value on
  the wire, so two successive requests given \<^verbatim>\<open>extra={'id': 99}\<close> are both sent with id
  99.
\<close>

theorem request_extra_id_counterexample:
  "map (\<lambda>w. wire_field w ''id'')
     (new_posts camera
       (perform_all (scripted [login_ok_reply, login_ok_reply])
         [Request ''magicBox.getSerialNo'' JNull JNull (Some [(''id'', JInt 99)]) None True,
          Request ''magicBox.getSerialNo'' JNull JNull (Some [(''id'', JInt 99)]) None True]
         camera))
     = [Some (JInt 99), Some (JInt 99)]"
  by (simp add: perform_all_def request_eq new_posts_def camera_simps wire_field_sent
                request_data_def Let_def map_of_dict_set map_of_dict_update)


end
